theory Spec2Isabelle
  imports Complex_Main "HOL-Library.Word" "HOL-Library.AList"
begin

section \<open>Python values\<close>

text \<open>
  A Python \<open>str\<close> is a sequence of Unicode code points, and \<open>len\<close>, slicing and
  \<open>strip\<close> all count code points. The model keeps exactly that: a string is the list of
  its code points. A literal of the source is written \<open>py ''...''\<close>.
\<close>

type_synonym pystr = "nat list"

type_synonym bytes = "8 word list"

definition py :: "string \<Rightarrow> pystr" where
  "py s = map of_char s"

text \<open>
  The characters \<open>str.strip()\<close> removes when called without an argument, as CPython's
  \<open>Py_UNICODE_ISSPACE\<close> decides them.
\<close>

definition isspace :: "nat \<Rightarrow> bool" where
  "isspace c \<longleftrightarrow>
     (0x09 \<le> c \<and> c \<le> 0x0D) \<or> (0x1C \<le> c \<and> c \<le> 0x20) \<or> c = 0x85 \<or> c = 0xA0 \<or>
     c = 0x1680 \<or> (0x2000 \<le> c \<and> c \<le> 0x200A) \<or> c = 0x2028 \<or> c = 0x2029 \<or>
     c = 0x202F \<or> c = 0x205F \<or> c = 0x3000"

definition strip :: "pystr \<Rightarrow> pystr" where
  "strip s = rev (dropWhile isspace (rev (dropWhile isspace s)))"

text \<open>
  \<open>if not s or not s.strip()\<close>: the test the program uses for "no text".
\<close>

definition blank :: "pystr \<Rightarrow> bool" where
  "blank s \<longleftrightarrow> s = [] \<or> strip s = []"

text \<open>\<open>sep.join(xs)\<close>.\<close>

fun join :: "pystr \<Rightarrow> pystr list \<Rightarrow> pystr" where
  "join sep [] = []"
| "join sep [x] = x"
| "join sep (x # y # ys) = x @ sep @ join sep (y # ys)"

text \<open>\<open>str(n)\<close> for a non-negative integer: its decimal digits.\<close>

fun str_nat :: "nat \<Rightarrow> pystr" where
  "str_nat n = (if n < 10 then [48 + n] else str_nat (n div 10) @ [48 + n mod 10])"

declare str_nat.simps [simp del]

text \<open>
  The exceptions of the program. \<open>HTTPException\<close> carries its status code and detail;
  every other exception carries the text that \<open>str(e)\<close> gives.
\<close>

datatype error =
    HTTPException nat pystr
  | ValueError pystr
  | TypeError pystr
  | IndexError pystr
  | FileNotFoundError pystr
  | Exception pystr

fun str_exc :: "error \<Rightarrow> pystr" where
  "str_exc (HTTPException code detail) = str_nat code @ py '': '' @ detail"
| "str_exc (ValueError m) = m"
| "str_exc (TypeError m) = m"
| "str_exc (IndexError m) = m"
| "str_exc (FileNotFoundError m) = m"
| "str_exc (Exception m) = m"

section \<open>Chunking (app/services/document\_processor.py)\<close>

text \<open>
  \<open>chunk_text\<close> builds a \<open>RecursiveCharacterTextSplitter\<close> of the langchain library with
  the given \<open>chunk_size\<close> and \<open>chunk_overlap\<close> (and the fixed separator list) and calls
  its \<open>split_text\<close>. The library is not part of the program; its behaviour is the
  parameter \<open>split_text\<close>, which may raise (the constructor rejects an overlap larger
  than the size). Everything around the call is the program's own code.
\<close>

type_synonym splitter = "int \<Rightarrow> int \<Rightarrow> pystr \<Rightarrow> error + pystr list"

definition chunk_text :: "splitter \<Rightarrow> pystr \<Rightarrow> int \<Rightarrow> int \<Rightarrow> error + pystr list" where
  "chunk_text split_text text chunk_size chunk_overlap =
     (if blank text then Inr []
      else case split_text chunk_size chunk_overlap text of
             Inl e \<Rightarrow> Inl e
           | Inr chunks \<Rightarrow> Inr (filter (\<lambda>chunk. length (strip chunk) > 50) chunks))"

text \<open>
  A splitter to evaluate \<open>chunk_text\<close> with: it returns the text as one piece, which is
  what the library returns for a text that is shorter than the chunk size, has no
  separator in it and no white space around it.
\<close>

definition one_piece :: splitter where
  "one_piece chunk_size chunk_overlap text = Inr [text]"

section \<open>Values, index entries and the outside world\<close>

text \<open>
  A metadata value is a string, an integer or a float. Every float is a rational number,
  so floats are modelled as \<open>rat\<close>; operations that round are parameters of the model.
  A Python \<open>dict\<close> is an association list with distinct keys, in insertion order.
\<close>

datatype mval = VStr pystr | VInt int | VFloat rat

type_synonym metadata_dict = "(pystr \<times> mval) list"

definition dict_get :: "metadata_dict \<Rightarrow> pystr \<Rightarrow> mval \<Rightarrow> mval" where
  "dict_get d k dflt = (case map_of d k of None \<Rightarrow> dflt | Some v \<Rightarrow> v)"

definition dict_update :: "metadata_dict \<Rightarrow> metadata_dict \<Rightarrow> metadata_dict" where
  "dict_update d other = foldl (\<lambda>acc (k, v). AList.update k v acc) d other"

text \<open>
  An entry of the vector index, as \<open>upsert_chunks\<close> builds it
  (\<open>{"id": ..., "values": ..., "metadata": ...}\<close>), and a match of a similarity search.
\<close>

record vector =
  vector_id :: pystr
  vector_values :: "rat list"
  metadata :: metadata_dict

record match =
  match_id :: pystr
  match_score :: rat
  match_metadata :: metadata_dict

text \<open>
  The two metadata filters the program sends: \<open>{"file_id": x}\<close> and
  \<open>{"file_id": {"$in": xs}}\<close>.
\<close>

datatype meta_filter = FileIdEq pystr | FileIdIn "pystr list"

text \<open>
  The calls that leave the process: reading an uploaded file for extraction, the
  embedding model, the vector index and the language model.
\<close>

datatype call =
    Extract pystr
  | Encode "pystr list"
  | Upsert "vector list"
  | Query "rat list" int "meta_filter option"
  | Delete meta_filter
  | GenerateContent pystr

text \<open>
  The state outside the request handler: the files of the upload directory (name and
  content, in the order \<open>iterdir\<close> lists them), the entries of the vector index, and the
  outbound calls made so far (oldest first).
\<close>

record world =
  upload_dir :: "(pystr \<times> bytes) list"
  index :: "vector list"
  calls :: "call list"

text \<open>
  The libraries and services the program calls are not part of it. Their behaviour is
  the environment: \<open>pathlib\<close> (\<open>path_suffix\<close>, \<open>path_stem\<close>), \<open>str.lower\<close>, the
  langchain splitter, the PDF and DOCX readers, text decoding, the sentence-transformer
  model (\<open>encode\<close>), whether the index raises on an upsert or a delete, what a similarity
  query answers, the language model, \<open>round\<close> on floats, and pydantic's validation of a
  \<open>str\<close> and of an \<open>int\<close> field. A theorem that holds for every environment holds
  whatever these answer.
\<close>

record env =
  split_text :: splitter
  path_suffix :: "pystr \<Rightarrow> pystr"
  path_stem :: "pystr \<Rightarrow> pystr"
  str_lower :: "pystr \<Rightarrow> pystr"
  pdf_page_texts :: "bytes \<Rightarrow> error + pystr list"
  docx_paragraphs :: "bytes \<Rightarrow> error + pystr list"
  read_utf8 :: "bytes \<Rightarrow> pystr option"
  read_latin1 :: "bytes \<Rightarrow> pystr"
  encode :: "pystr list \<Rightarrow> error + rat list list"
  index_upsert_raises :: "vector list \<Rightarrow> vector list \<Rightarrow> error option"
  index_delete_raises :: "vector list \<Rightarrow> meta_filter \<Rightarrow> error option"
  index_query :: "vector list \<Rightarrow> rat list \<Rightarrow> int \<Rightarrow> meta_filter option \<Rightarrow> error + match list"
  generate_content :: "pystr \<Rightarrow> error + pystr"
  round_float :: "rat \<Rightarrow> nat \<Rightarrow> rat"
  pydantic_str :: "mval \<Rightarrow> error + pystr"
  pydantic_int :: "mval \<Rightarrow> error + int"

section \<open>Configuration (app/config.py)\<close>

definition MAX_FILE_SIZE_MB :: rat where
  "MAX_FILE_SIZE_MB = 15"

definition ALLOWED_EXTENSIONS :: "pystr list" where
  "ALLOWED_EXTENSIONS = [py ''.pdf'', py ''.txt'', py ''.docx'']"

definition CHUNK_SIZE :: int where
  "CHUNK_SIZE = 1000"

definition CHUNK_OVERLAP :: int where
  "CHUNK_OVERLAP = 200"

section \<open>Text extraction (app/services/document\_processor.py)\<close>

text \<open>
  \<open>process_document\<close> dispatches on the lower-cased suffix of the stored file and reads
  it: the pages of a PDF joined by a newline, the non-blank paragraphs of a DOCX joined
  by a newline, a text file as UTF-8 and, when that fails to decode, as Latin-1.
\<close>

definition open_file :: "world \<Rightarrow> pystr \<Rightarrow> (error + bytes) \<times> world" where
  "open_file w file_path =
     (case map_of (upload_dir w) file_path of
        None \<Rightarrow> Inl (FileNotFoundError file_path)
      | Some content \<Rightarrow> Inr content,
      w\<lparr>calls := calls w @ [Extract file_path]\<rparr>)"

definition extract_text_from_pdf :: "env \<Rightarrow> world \<Rightarrow> pystr \<Rightarrow> (error + pystr) \<times> world" where
  "extract_text_from_pdf env w file_path =
     (case open_file w file_path of
        (Inl e, w') \<Rightarrow> (Inl e, w')
      | (Inr content, w') \<Rightarrow>
          (case pdf_page_texts env content of
             Inl e \<Rightarrow> Inl e
           | Inr pages \<Rightarrow> Inr (join (py ''\<newline>'') pages),
           w'))"

definition extract_text_from_docx :: "env \<Rightarrow> world \<Rightarrow> pystr \<Rightarrow> (error + pystr) \<times> world" where
  "extract_text_from_docx env w file_path =
     (case open_file w file_path of
        (Inl e, w') \<Rightarrow> (Inl e, w')
      | (Inr content, w') \<Rightarrow>
          (case docx_paragraphs env content of
             Inl e \<Rightarrow> Inl e
           | Inr paragraphs \<Rightarrow>
               Inr (join (py ''\<newline>'') (filter (\<lambda>text. strip text \<noteq> []) paragraphs)),
           w'))"

definition extract_text_from_txt :: "env \<Rightarrow> world \<Rightarrow> pystr \<Rightarrow> (error + pystr) \<times> world" where
  "extract_text_from_txt env w file_path =
     (case open_file w file_path of
        (Inl e, w') \<Rightarrow> (Inl e, w')
      | (Inr content, w') \<Rightarrow>
          (case read_utf8 env content of
             Some text \<Rightarrow> Inr text
           | None \<Rightarrow> Inr (read_latin1 env content),
           w'))"

definition process_document :: "env \<Rightarrow> world \<Rightarrow> pystr \<Rightarrow> (error + pystr) \<times> world" where
  "process_document env w file_path =
     (let file_type = str_lower env (path_suffix env file_path)
      in if file_type = py ''.pdf'' then extract_text_from_pdf env w file_path
         else if file_type = py ''.docx'' then extract_text_from_docx env w file_path
         else if file_type = py ''.txt'' then extract_text_from_txt env w file_path
         else (Inl (ValueError (py ''Unsupported file type : '' @ file_type)), w))"

section \<open>Embeddings (app/services/embeddings.py)\<close>

definition generate_embeddings :: "env \<Rightarrow> world \<Rightarrow> pystr list \<Rightarrow> (error + rat list list) \<times> world" where
  "generate_embeddings env w texts =
     (if texts = [] then (Inr [], w)
      else (encode env texts, w\<lparr>calls := calls w @ [Encode texts]\<rparr>))"

definition generate_single_embedding :: "env \<Rightarrow> world \<Rightarrow> pystr \<Rightarrow> (error + rat list) \<times> world" where
  "generate_single_embedding env w text =
     (case encode env [text] of
        Inl e \<Rightarrow> Inl e
      | Inr [] \<Rightarrow> Inl (IndexError (py ''index 0 is out of bounds''))
      | Inr (embedding # _) \<Rightarrow> Inr embedding,
      w\<lparr>calls := calls w @ [Encode [text]]\<rparr>)"

section \<open>The language model (app/services/llm.py)\<close>

definition prompt_of :: "pystr \<Rightarrow> pystr \<Rightarrow> pystr" where
  "prompt_of query context =
     py ''\<newline>\<newline>        You are a FAUX an AI assistant developed by Gabriel that answers questions based on the provided context from documents.\<newline>\<newline>        Context from documents:\<newline>        ''
     @ context
     @ py ''\<newline>\<newline>        User question: ''
     @ query
     @ py ''\<newline>\<newline>        Instructions:\<newline>        - Answer the question based ONLY on the information in the context above\<newline>        - If the context doesn't contain enough information to answer, say so\<newline>        - Be concise but thorough\<newline>        - Cite specific information from the context when relevant\<newline>\<newline>        Answer:''"

definition generate_response :: "env \<Rightarrow> world \<Rightarrow> pystr \<Rightarrow> pystr \<Rightarrow> (error + pystr) \<times> world" where
  "generate_response env w query context =
     (let prompt = prompt_of query context
      in (case generate_content env prompt of
            Inr text \<Rightarrow> Inr text
          | Inl e \<Rightarrow> Inl (Exception (py ''Failed to generate response: '' @ str_exc e)),
          w\<lparr>calls := calls w @ [GenerateContent prompt]\<rparr>))"

section \<open>The vector store (app/services/vector\_store.py)\<close>

text \<open>
  The index itself is a service outside the program. Its model: an upsert writes each
  entry of the batch, replacing the entry that has the same id; a delete with the filter
  \<open>{"file_id": x}\<close> removes the entries whose metadata field \<open>file_id\<close> is \<open>x\<close>;
  either may raise instead, as the environment decides, and then changes nothing.
\<close>

fun upsert_one :: "vector list \<Rightarrow> vector \<Rightarrow> vector list" where
  "upsert_one [] v = [v]"
| "upsert_one (u # us) v = (if vector_id u = vector_id v then v # us else u # upsert_one us v)"

definition index_upsert :: "env \<Rightarrow> world \<Rightarrow> vector list \<Rightarrow> (error + unit) \<times> world" where
  "index_upsert env w batch =
     (let w' = w\<lparr>calls := calls w @ [Upsert batch]\<rparr>
      in case index_upsert_raises env (index w) batch of
           Some e \<Rightarrow> (Inl e, w')
         | None \<Rightarrow> (Inr (), w'\<lparr>index := foldl upsert_one (index w) batch\<rparr>))"

fun matches_filter :: "meta_filter \<Rightarrow> vector \<Rightarrow> bool" where
  "matches_filter (FileIdEq x) v \<longleftrightarrow> map_of (metadata v) (py ''file_id'') = Some (VStr x)"
| "matches_filter (FileIdIn xs) v \<longleftrightarrow>
     (case map_of (metadata v) (py ''file_id'') of Some (VStr x) \<Rightarrow> x \<in> set xs | _ \<Rightarrow> False)"

definition index_delete :: "env \<Rightarrow> world \<Rightarrow> meta_filter \<Rightarrow> (error + unit) \<times> world" where
  "index_delete env w flt =
     (let w' = w\<lparr>calls := calls w @ [Delete flt]\<rparr>
      in case index_delete_raises env (index w) flt of
           Some e \<Rightarrow> (Inl e, w')
         | None \<Rightarrow> (Inr (), w'\<lparr>index := filter (\<lambda>v. \<not> matches_filter flt v) (index w)\<rparr>))"

text \<open>
  \<open>upsert_chunks\<close>, first loop: one entry per pair of chunk and embedding, with the id
  \<open>{file_id}_chunk_{idx}\<close> and the metadata; the additional metadata, when given and not
  empty, is merged over it.
\<close>

definition chunk_vector ::
  "pystr \<Rightarrow> pystr \<Rightarrow> metadata_dict option \<Rightarrow> nat \<times> pystr \<times> rat list \<Rightarrow> vector" where
  "chunk_vector file_id filename additional_metadata item =
     (case item of (idx, chunk, embedding) \<Rightarrow>
        (let vid = file_id @ py ''_chunk_'' @ str_nat idx;
             md = [(py ''file_id'', VStr file_id),
                   (py ''filename'', VStr filename),
                   (py ''chunk_index'', VInt (int idx)),
                   (py ''chunk_text'', VStr (take 1000 chunk)),
                   (py ''text_length'', VInt (int (length chunk)))];
             md' = (case additional_metadata of
                      None \<Rightarrow> md
                    | Some extra \<Rightarrow> if extra = [] then md else dict_update md extra)
         in \<lparr>vector_id = vid, vector_values = embedding, metadata = md'\<rparr>))"

definition prepare_vectors ::
  "pystr \<Rightarrow> pystr \<Rightarrow> pystr list \<Rightarrow> rat list list \<Rightarrow> metadata_dict option \<Rightarrow> vector list" where
  "prepare_vectors file_id filename chunks embeddings additional_metadata =
     map (chunk_vector file_id filename additional_metadata) (enumerate 0 (zip chunks embeddings))"

text \<open>
  Second loop: \<open>for i in range(0, len(vectors), 100)\<close> sends \<open>vectors[i:i + 100]\<close> and adds
  the batch's length to the total. A batch that raises ends the loop with what the
  earlier batches wrote still in the index.
\<close>

function upsert_batches :: "env \<Rightarrow> world \<Rightarrow> vector list \<Rightarrow> nat \<Rightarrow> nat \<Rightarrow> (error + nat) \<times> world" where
  "upsert_batches env w vectors i total_upserted =
     (if i < length vectors then
        (let batch = take 100 (drop i vectors)
         in case index_upsert env w batch of
              (Inl e, w') \<Rightarrow> (Inl e, w')
            | (Inr _, w') \<Rightarrow> upsert_batches env w' vectors (i + 100) (total_upserted + length batch))
      else (Inr total_upserted, w))"
  by pat_completeness auto
termination
  by (relation "measure (\<lambda>(env, w, vectors, i, total_upserted). length vectors - i)") auto

declare upsert_batches.simps [simp del]

definition upsert_chunks ::
  "env \<Rightarrow> world \<Rightarrow> pystr \<Rightarrow> pystr \<Rightarrow> pystr list \<Rightarrow> rat list list \<Rightarrow> metadata_dict option
     \<Rightarrow> (error + nat) \<times> world" where
  "upsert_chunks env w file_id filename chunks embeddings additional_metadata =
     (if length chunks \<noteq> length embeddings then
        (Inl (ValueError (py ''Number of chunks must match number of embeddings'')), w)
      else upsert_batches env w
             (prepare_vectors file_id filename chunks embeddings additional_metadata) 0 0)"

definition search ::
  "env \<Rightarrow> world \<Rightarrow> rat list \<Rightarrow> int \<Rightarrow> meta_filter option \<Rightarrow> (error + match list) \<times> world" where
  "search env w query_embedding top_k filter_dict =
     (index_query env (index w) query_embedding top_k filter_dict,
      w\<lparr>calls := calls w @ [Query query_embedding top_k filter_dict]\<rparr>)"

text \<open>\<open>delete_by_file_id\<close> catches what the index raises and answers \<open>False\<close>.\<close>

definition delete_by_file_id :: "env \<Rightarrow> world \<Rightarrow> pystr \<Rightarrow> bool \<times> world" where
  "delete_by_file_id env w file_id =
     (case index_delete env w (FileIdEq file_id) of
        (Inr _, w') \<Rightarrow> (True, w')
      | (Inl e, w') \<Rightarrow> (False, w'))"

section \<open>The upload endpoints (app/api/upload.py)\<close>

text \<open>
  An uploaded file: the client's file name (it may be absent) and the bytes.
\<close>

record upload =
  filename :: "pystr option"
  file_bytes :: bytes

record upload_response =
  success :: bool
  r_file_id :: pystr
  r_filename :: pystr
  size_bytes :: nat
  size_mb :: rat
  text_length :: nat
  num_chunks :: nat
  num_embeddings :: nat
  vectors_stored :: nat
  embedding_dimension :: nat
  upload_date :: pystr
  r_message :: pystr

text \<open>
  \<open>validate_file\<close>. \<open>Path(None)\<close> raises a \<open>TypeError\<close>. The detail of the first error
  lists the allowed extensions in the iteration order of a Python set, which the
  language leaves open; the model lists them as the configuration writes them.
\<close>

definition validate_file :: "env \<Rightarrow> upload \<Rightarrow> error + unit" where
  "validate_file env file =
     (case filename file of
        None \<Rightarrow> Inl (TypeError (py ''expected str, bytes or os.PathLike object, not NoneType''))
      | Some name \<Rightarrow>
          (let file_extension = str_lower env (path_suffix env name)
           in if file_extension \<notin> set ALLOWED_EXTENSIONS then
                Inl (HTTPException 400
                  (py ''File type not allowed. Allowed types: '' @ join (py '','') ALLOWED_EXTENSIONS))
              else if name = [] then Inl (HTTPException 400 (py ''No file provided''))
              else Inr ()))"

text \<open>
  The body of the \<open>try\<close> block of \<open>upload_file\<close>: extraction, chunking, embedding and the
  upsert, each of which may raise. \<open>now\<close> and \<open>now'\<close> are the two readings of the clock.
\<close>

definition upload_file_try ::
  "env \<Rightarrow> world \<Rightarrow> pystr \<Rightarrow> pystr \<Rightarrow> pystr \<Rightarrow> bytes \<Rightarrow> rat \<Rightarrow> pystr \<Rightarrow> pystr
     \<Rightarrow> (error + upload_response) \<times> world" where
  "upload_file_try env w file_path file_id name contents file_size_mb now now' =
     (case process_document env w file_path of
        (Inl e, w1) \<Rightarrow> (Inl e, w1)
      | (Inr extracted_text, w1) \<Rightarrow>
          if blank extracted_text then
            (Inl (ValueError (py ''No text could be extracted from the document'')), w1)
          else
            (case chunk_text (split_text env) extracted_text CHUNK_SIZE CHUNK_OVERLAP of
               Inl e \<Rightarrow> (Inl e, w1)
             | Inr chunks \<Rightarrow>
                 if chunks = [] then
                   (Inl (ValueError (py ''No valid chunks created from uploaded document'')), w1)
                 else
                   (case generate_embeddings env w1 chunks of
                      (Inl e, w2) \<Rightarrow> (Inl e, w2)
                    | (Inr embeddings, w2) \<Rightarrow>
                        (case upsert_chunks env w2 file_id name chunks embeddings
                                (Some [(py ''upload_date'', VStr now),
                                       (py ''file_size_mb'', VFloat (round_float env file_size_mb 2))]) of
                           (Inl e, w3) \<Rightarrow> (Inl e, w3)
                         | (Inr num_vectors, w3) \<Rightarrow>
                             (Inr \<lparr>success = True,
                                   r_file_id = file_id,
                                   r_filename = name,
                                   size_bytes = length contents,
                                   size_mb = round_float env file_size_mb 2,
                                   text_length = length extracted_text,
                                   num_chunks = length chunks,
                                   num_embeddings = length embeddings,
                                   vectors_stored = num_vectors,
                                   embedding_dimension =
                                     (case embeddings of [] \<Rightarrow> 0 | e # _ \<Rightarrow> length e),
                                   upload_date = now',
                                   r_message = py ''File uploaded, processed, and stored in vector database successfully''\<rparr>,
                              w3)))))"

text \<open>
  \<open>upload_file\<close>. \<open>file_id\<close> is the fresh \<open>uuid4\<close> of the request. The file is written
  under \<open>{file_id}{suffix}\<close>; when the \<open>try\<close> block raises, the handler unlinks that file
  and raises a 500.
\<close>

definition upload_file ::
  "env \<Rightarrow> world \<Rightarrow> upload \<Rightarrow> pystr \<Rightarrow> pystr \<Rightarrow> pystr \<Rightarrow> (error + upload_response) \<times> world" where
  "upload_file env w file file_id now now' =
     (case validate_file env file of
        Inl e \<Rightarrow> (Inl e, w)
      | Inr _ \<Rightarrow>
          (case filename file of
             None \<Rightarrow> (Inl (TypeError (py ''expected str, bytes or os.PathLike object, not NoneType'')), w)
           | Some name \<Rightarrow>
               (let file_size_mb = rat_of_nat (length (file_bytes file)) / (1024 * 1024)
                in if file_size_mb > MAX_FILE_SIZE_MB then
                     (Inl (HTTPException 413 (py ''File too large. Max Size: 15MB'')), w)
                   else
                     (let file_extension = path_suffix env name;
                          unique_filename = file_id @ file_extension;
                          saved = w\<lparr>upload_dir := AList.update unique_filename (file_bytes file) (upload_dir w)\<rparr>
                      in case upload_file_try env saved unique_filename file_id name (file_bytes file)
                                file_size_mb now now' of
                           (Inr response, w') \<Rightarrow> (Inr response, w')
                         | (Inl e, w') \<Rightarrow>
                             (Inl (HTTPException 500 (py ''Failed to process document: '' @ str_exc e)),
                              w'\<lparr>upload_dir := AList.delete unique_filename (upload_dir w')\<rparr>)))))"

text \<open>
  \<open>delete_file\<close>: the first file of the upload directory whose stem is the id is
  unlinked and its index entries are deleted; the answer of \<open>delete_by_file_id\<close> is not
  looked at. No such file is a 404.
\<close>

definition delete_file :: "env \<Rightarrow> world \<Rightarrow> pystr \<Rightarrow> (error + bool \<times> pystr) \<times> world" where
  "delete_file env w file_id =
     (case find (\<lambda>(name, content). path_stem env name = file_id) (upload_dir w) of
        None \<Rightarrow> (Inl (HTTPException 404 (py ''File not found'')), w)
      | Some (name, content) \<Rightarrow>
          (case delete_by_file_id env (w\<lparr>upload_dir := AList.delete name (upload_dir w)\<rparr>) file_id of
             (ok, w') \<Rightarrow> (Inr (True, py ''File deleted successfully''), w')))"

section \<open>The chat endpoint (app/api/chat.py)\<close>

record ChatRequest =
  message :: pystr
  file_ids :: "pystr list option"
  top_k :: int

text \<open>
  The request model: \<open>file_ids\<close> defaults to \<open>None\<close> and \<open>top_k\<close> to 5. The class
  declares no validator and no bound for \<open>top_k\<close>.
\<close>

definition make_ChatRequest :: "pystr \<Rightarrow> pystr list option \<Rightarrow> int option \<Rightarrow> ChatRequest" where
  "make_ChatRequest msg ids k =
     \<lparr>message = msg, file_ids = ids, top_k = (case k of None \<Rightarrow> 5 | Some n \<Rightarrow> n)\<rparr>"

record Source =
  src_filename :: pystr
  src_chunk_text :: pystr
  src_chunk_index :: int
  similarity_score :: rat

record ChatResponse =
  reply :: pystr
  sources :: "Source list"
  num_sources :: nat

text \<open>
  The loop over the matches: the metadata field \<open>chunk_text\<close> (default the empty
  string) goes to the context as it is, and its first 200 characters followed by
  \<open>...\<close> go to the source. Slicing a value that is not a string raises a
  \<open>TypeError\<close>; pydantic validates the file name and the chunk index.
\<close>

fun chat_matches :: "env \<Rightarrow> match list \<Rightarrow> pystr list \<Rightarrow> Source list \<Rightarrow> error + pystr list \<times> Source list" where
  "chat_matches env [] context_chunks srcs = Inr (context_chunks, srcs)"
| "chat_matches env (m # ms) context_chunks srcs =
     (case dict_get (match_metadata m) (py ''chunk_text'') (VStr []) of
        VStr chunk_text' \<Rightarrow>
          (case pydantic_str env (dict_get (match_metadata m) (py ''filename'') (VStr (py ''Unknown''))) of
             Inl e \<Rightarrow> Inl e
           | Inr fname \<Rightarrow>
               (case pydantic_int env (dict_get (match_metadata m) (py ''chunk_index'') (VInt 0)) of
                  Inl e \<Rightarrow> Inl e
                | Inr cidx \<Rightarrow>
                    chat_matches env ms (context_chunks @ [chunk_text'])
                      (srcs @ [\<lparr>src_filename = fname,
                                src_chunk_text = take 200 chunk_text' @ py ''...'',
                                src_chunk_index = cidx,
                                similarity_score = round_float env (match_score m) 4\<rparr>])))
      | _ \<Rightarrow> Inl (TypeError (py ''object is not subscriptable'')))"

definition no_information :: pystr where
  "no_information = py ''I couldn't find any relevant information in the uploaded documents to answer your question.''"

text \<open>
  \<open>filter_dict\<close>: the search is restricted to the given files when \<open>file_ids\<close> is
  neither \<open>None\<close> nor empty.
\<close>

definition filter_dict_of :: "ChatRequest \<Rightarrow> meta_filter option" where
  "filter_dict_of request =
     (case file_ids request of
        None \<Rightarrow> None
      | Some ids \<Rightarrow> if ids = [] then None else Some (FileIdIn ids))"

definition chat :: "env \<Rightarrow> world \<Rightarrow> ChatRequest \<Rightarrow> (error + ChatResponse) \<times> world" where
  "chat env w request =
     (if blank (message request) then
        (Inl (HTTPException 400 (py ''Message cannot be empty'')), w)
      else
        (case generate_single_embedding env w (message request) of
           (Inl e, w1) \<Rightarrow> (Inl e, w1)
         | (Inr query_embedding, w1) \<Rightarrow>
             (let filter_dict = filter_dict_of request
              in case search env w1 query_embedding (top_k request) filter_dict of
                   (Inl e, w2) \<Rightarrow> (Inl e, w2)
                 | (Inr matches, w2) \<Rightarrow>
                     if matches = [] then
                       (Inr \<lparr>reply = no_information, sources = [], num_sources = 0\<rparr>, w2)
                     else
                       (case chat_matches env matches [] [] of
                          Inl e \<Rightarrow> (Inl e, w2)
                        | Inr (context_chunks, srcs) \<Rightarrow>
                            (let context = join (py ''\<newline>\<newline>'') context_chunks
                             in case generate_response env w2 (message request) context of
                                  (Inl e, w3) \<Rightarrow> (Inl e, w3)
                                | (Inr llm_response, w3) \<Rightarrow>
                                    (Inr \<lparr>reply = llm_response, sources = srcs,
                                          num_sources = length srcs\<rparr>, w3))))))"

section \<open>Notions used to state the properties\<close>

text \<open>
  The additional metadata leaves a key alone when it is absent or does not mention the
  key. \<open>upload_file\<close> passes \<open>upload_date\<close> and \<open>file_size_mb\<close> only.
\<close>

definition extra_keeps :: "pystr \<Rightarrow> metadata_dict option \<Rightarrow> bool" where
  "extra_keeps k extra \<longleftrightarrow> (case extra of None \<Rightarrow> True | Some e \<Rightarrow> k \<notin> fst ` set e)"

text \<open>
  What \<open>match.metadata.get("chunk_text", "")\<close> gives for a match, when it is a string:
  the whole stored value, and the empty string when the field is absent.
\<close>

definition stored_chunk_text :: "match \<Rightarrow> pystr" where
  "stored_chunk_text m =
     (case dict_get (match_metadata m) (py ''chunk_text'') (VStr []) of VStr s \<Rightarrow> s | _ \<Rightarrow> [])"

section \<open>A concrete environment\<close>

text \<open>
  One environment to run the model in. Paths are plain POSIX file names: the suffix is
  what follows the last dot of the final component, when that dot is neither its first
  nor its last character. Lower-casing covers ASCII letters, text decoding covers ASCII
  bytes. The embedding of a text is a one-dimensional vector, the language model always
  answers \<open>answer\<close>, and the index never raises on an upsert or a delete. A query with a
  \<open>top_k\<close> below 1 is refused by the index; any other query answers the first \<open>top_k\<close>
  entries that pass the filter, each with score 1.
\<close>

definition posix_name :: "pystr \<Rightarrow> pystr" where
  "posix_name p = rev (takeWhile (\<lambda>c. c \<noteq> 47) (rev p))"

definition posix_suffix :: "pystr \<Rightarrow> pystr" where
  "posix_suffix p =
     (let name = posix_name p; ext = rev (takeWhile (\<lambda>c. c \<noteq> 46) (rev name))
      in if 46 \<in> set name \<and> ext \<noteq> [] \<and> length ext + 1 < length name then 46 # ext else [])"

definition posix_stem :: "pystr \<Rightarrow> pystr" where
  "posix_stem p =
     (let name = posix_name p
      in take (length name - length (posix_suffix p)) name)"

definition ascii_lower :: "pystr \<Rightarrow> pystr" where
  "ascii_lower s = map (\<lambda>c. if 65 \<le> c \<and> c \<le> 90 then c + 32 else c) s"

definition ascii_text :: "bytes \<Rightarrow> pystr option" where
  "ascii_text b = (if list_all (\<lambda>x. x < 128) b then Some (map unat b) else None)"

definition as_match :: "vector \<Rightarrow> match" where
  "as_match v = \<lparr>match_id = vector_id v, match_score = 1, match_metadata = metadata v\<rparr>"

definition first_entries :: "vector list \<Rightarrow> rat list \<Rightarrow> int \<Rightarrow> meta_filter option \<Rightarrow> error + match list" where
  "first_entries idx q k flt =
     (if k < 1 then Inl (Exception (py ''top_k must be a positive integer''))
      else Inr (map as_match (take (nat k)
             (case flt of None \<Rightarrow> idx | Some f \<Rightarrow> filter (matches_filter f) idx))))"

definition str_field :: "mval \<Rightarrow> error + pystr" where
  "str_field v = (case v of VStr s \<Rightarrow> Inr s | _ \<Rightarrow> Inl (ValueError (py ''Input should be a valid string'')))"

definition int_field :: "mval \<Rightarrow> error + int" where
  "int_field v = (case v of VInt n \<Rightarrow> Inr n | _ \<Rightarrow> Inl (ValueError (py ''Input should be a valid integer'')))"

definition local_env :: env where
  "local_env =
     \<lparr>split_text = one_piece,
      path_suffix = posix_suffix,
      path_stem = posix_stem,
      str_lower = ascii_lower,
      pdf_page_texts = (\<lambda>b. Inr []),
      docx_paragraphs = (\<lambda>b. Inr []),
      read_utf8 = ascii_text,
      read_latin1 = map unat,
      encode = (\<lambda>texts. Inr (map (\<lambda>t. [rat_of_nat (length t)]) texts)),
      index_upsert_raises = (\<lambda>idx batch. None),
      index_delete_raises = (\<lambda>idx flt. None),
      index_query = first_entries,
      generate_content = (\<lambda>prompt. Inr (py ''answer'')),
      round_float = (\<lambda>x ndigits. x),
      pydantic_str = str_field,
      pydantic_int = int_field\<rparr>"

definition empty_world :: world where
  "empty_world = \<lparr>upload_dir = [], index = [], calls = []\<rparr>"

text \<open>
  A second environment, for a failure in the middle of an upsert: the splitter cuts the
  text into consecutive pieces of \<open>chunk_size\<close> characters (the last one shorter), and
  the index accepts a batch only while it is empty.
\<close>

function chop :: "nat \<Rightarrow> pystr \<Rightarrow> pystr list" where
  "chop n s = (if n = 0 \<or> s = [] then [] else take n s # chop n (drop n s))"
  by pat_completeness auto
termination
  by (relation "measure (\<lambda>(n, s). length s)") auto

declare chop.simps [simp del]

definition fixed_pieces :: splitter where
  "fixed_pieces chunk_size chunk_overlap text = Inr (chop (nat chunk_size) text)"

definition flaky_env :: env where
  "flaky_env =
     local_env\<lparr>split_text := fixed_pieces,
               index_upsert_raises :=
                 (\<lambda>idx batch. if idx = [] then None else Some (Exception (py ''upsert failed'')))\<rparr>"

text \<open>
  Two more environments: one that only replaces the splitter of the first by the one
  that cuts fixed pieces, and one whose index raises on every delete. And a state that
  already holds an older document: its file and its one index entry.
\<close>

definition chopping_env :: env where
  "chopping_env = local_env\<lparr>split_text := fixed_pieces\<rparr>"

definition deaf_index_env :: env where
  "deaf_index_env =
     local_env\<lparr>index_delete_raises := (\<lambda>idx flt. Some (Exception (py ''delete failed'')))\<rparr>"

definition old_entry :: vector where
  "old_entry =
     \<lparr>vector_id = py ''old_chunk_0'', vector_values = [4],
      metadata = [(py ''file_id'', VStr (py ''old'')), (py ''filename'', VStr (py ''old.txt'')),
                  (py ''chunk_index'', VInt 0), (py ''chunk_text'', VStr (py ''kept'')),
                  (py ''text_length'', VInt 4)]\<rparr>"

definition stocked_world :: world where
  "stocked_world =
     \<lparr>upload_dir = [(py ''old.txt'', [107, 101, 112, 116])], index = [old_entry], calls = []\<rparr>"

section \<open>Facts about Python strings\<close>

lemma py_eq_iff [simp]: "py a = py b \<longleftrightarrow> a = b"
proof -
  have "inj (of_char :: char \<Rightarrow> nat)" by (rule injI) simp
  then show ?thesis unfolding py_def by (rule inj_map_eq_map)
qed

lemma strip_all_space:
  assumes "list_all isspace s"
  shows "strip s = []"
proof -
  have "dropWhile isspace s = []" using assms by (simp add: list_all_iff)
  then show ?thesis by (simp add: strip_def del: dropWhile_eq_Nil_conv)
qed

lemma strip_replicate: "\<not> isspace c \<Longrightarrow> strip (replicate n c) = replicate n c"
  by (cases n) (simp_all add: strip_def replicate_append_same)

lemma not_isspace_a: "\<not> isspace 97"
  by (simp add: isspace_def)

lemma str_nat_not_Nil: "str_nat n \<noteq> []"
  by (subst str_nat.simps) simp

lemma str_nat_last: "last (str_nat n) = 48 + n mod 10"
  by (subst str_nat.simps) simp

lemma str_nat_butlast: "butlast (str_nat n) = (if n < 10 then [] else str_nat (n div 10))"
  by (subst str_nat.simps) simp

lemma str_nat_inj: "str_nat m = str_nat n \<Longrightarrow> m = n"
proof (induction m arbitrary: n rule: str_nat.induct)
  case (1 m)
  from "1.prems" have l: "m mod 10 = n mod 10"
    using str_nat_last [of m] str_nat_last [of n] by simp
  from "1.prems" have b: "butlast (str_nat m) = butlast (str_nat n)" by simp
  show ?case
  proof (cases "m < 10")
    case True
    with b have "n < 10" using str_nat_not_Nil [of "n div 10"] by (auto simp: str_nat_butlast split: if_splits)
    with True l show ?thesis by simp
  next
    case False
    with b have n: "\<not> n < 10" using str_nat_not_Nil [of "m div 10"] by (auto simp: str_nat_butlast split: if_splits)
    with False b have "str_nat (m div 10) = str_nat (n div 10)" by (simp add: str_nat_butlast)
    with "1.IH" False have "m div 10 = n div 10" by simp
    with l show ?thesis by (metis div_mult_mod_eq)
  qed
qed

section \<open>Facts about the vector store and the loops\<close>

lemma map_of_dict_update:
  "k \<notin> fst ` set other \<Longrightarrow> map_of (dict_update d other) k = map_of d k"
  unfolding dict_update_def
  by (induction other arbitrary: d) (auto simp: update_conv')

lemma chunk_vector_id:
  "vector_id (chunk_vector fid fname extra (idx, chunk, emb)) = fid @ py ''_chunk_'' @ str_nat idx"
  by (simp add: chunk_vector_def Let_def)

lemma chunk_vector_field:
  assumes "extra_keeps k extra"
  shows "map_of (metadata (chunk_vector fid fname extra (idx, chunk, emb))) k =
         map_of [(py ''file_id'', VStr fid), (py ''filename'', VStr fname),
                 (py ''chunk_index'', VInt (int idx)), (py ''chunk_text'', VStr (take 1000 chunk)),
                 (py ''text_length'', VInt (int (length chunk)))] k"
  using assms
  by (cases extra) (simp_all add: chunk_vector_def Let_def extra_keeps_def map_of_dict_update del: map_of.simps)

lemma prepare_vectors_length:
  "length (prepare_vectors fid fname chunks embs extra) = min (length chunks) (length embs)"
  by (simp add: prepare_vectors_def)

lemma prepare_vectors_nth:
  assumes "i < length chunks" "i < length embs"
  shows "prepare_vectors fid fname chunks embs extra ! i = chunk_vector fid fname extra (i, chunks ! i, embs ! i)"
  using assms by (simp add: prepare_vectors_def nth_enumerate_eq)

lemma chat_matches_acc:
  "chat_matches env ms cc ss = Inr (ctx, srcs) \<Longrightarrow>
     ctx = cc @ map stored_chunk_text ms \<and>
     map src_chunk_text srcs =
       map src_chunk_text ss @ map (\<lambda>m. take 200 (stored_chunk_text m) @ py ''...'') ms"
proof (induction ms arbitrary: cc ss)
  case Nil
  then show ?case by simp
next
  case (Cons m ms)
  from Cons.prems obtain s fname cidx where
    s: "dict_get (match_metadata m) (py ''chunk_text'') (VStr []) = VStr s"
    and rest: "chat_matches env ms (cc @ [s])
         (ss @ [\<lparr>src_filename = fname, src_chunk_text = take 200 s @ py ''...'',
                  src_chunk_index = cidx, similarity_score = round_float env (match_score m) 4\<rparr>]) =
       Inr (ctx, srcs)"
    by (auto split: mval.splits sum.splits)
  from s have st: "stored_chunk_text m = s" by (simp add: stored_chunk_text_def)
  from Cons.IH [OF rest] st show ?case by simp
qed

lemma upsert_batches_index:
  "upsert_batches env w vectors i n = (Inr total_upserted, w') \<Longrightarrow>
     index w' = foldl upsert_one (index w) (drop i vectors) \<and>
     total_upserted = n + (length vectors - i)"
proof (induction env w vectors i n rule: upsert_batches.induct)
  case (1 env w vectors i n)
  show ?case
  proof (cases "i < length vectors")
    case False
    with "1.prems" show ?thesis by (simp add: upsert_batches.simps)
  next
    case True
    let ?batch = "take 100 (drop i vectors)"
    obtain r w1 where step: "index_upsert env w ?batch = (r, w1)"
      by (cases "index_upsert env w ?batch")
    from "1.prems" True step obtain u where r: "r = Inr u"
      by (cases r) (simp_all add: upsert_batches.simps [of env w])
    from "1.prems" True step r
    have rec: "upsert_batches env w1 vectors (i + 100) (n + length ?batch) = (Inr total_upserted, w')"
      by (simp add: upsert_batches.simps [of env w])
    from step r have idx: "index w1 = foldl upsert_one (index w) ?batch"
      by (auto simp: index_upsert_def Let_def split: option.splits)
    from "1.IH" [OF True refl step [symmetric] r rec]
    have iw: "index w' = foldl upsert_one (index w1) (drop (i + 100) vectors)"
      and t: "total_upserted = n + length ?batch + (length vectors - (i + 100))" by simp_all
    have "drop i vectors = ?batch @ drop (i + 100) vectors"
      by (metis append_take_drop_id drop_drop add.commute)
    from arg_cong [OF this, of "foldl upsert_one (index w)"]
    have "foldl upsert_one (index w) (drop i vectors) =
          foldl upsert_one (foldl upsert_one (index w) ?batch) (drop (i + 100) vectors)"
      by (simp only: foldl_append)
    with idx iw
    have "index w' = foldl upsert_one (index w) (drop i vectors)" by simp
    moreover have "total_upserted = n + (length vectors - i)" using t True by (simp add: min_def)
    ultimately show ?thesis by simp
  qed
qed

lemma upsert_chunks_index:
  assumes "upsert_chunks env w fid fname chunks embs extra = (Inr total_upserted, w')"
  shows "length chunks = length embs \<and>
         index w' = foldl upsert_one (index w) (prepare_vectors fid fname chunks embs extra) \<and>
         total_upserted = length chunks"
proof -
  from assms have len: "length chunks = length embs"
    by (auto simp: upsert_chunks_def split: if_splits)
  with assms have "upsert_batches env w (prepare_vectors fid fname chunks embs extra) 0 0 = (Inr total_upserted, w')"
    by (simp add: upsert_chunks_def)
  from upsert_batches_index [OF this] len show ?thesis by (simp add: prepare_vectors_length)
qed

lemma upsert_one_fresh:
  "vector_id v \<notin> vector_id ` set idx \<Longrightarrow> upsert_one idx v = idx @ [v]"
  by (induction idx) auto

lemma foldl_upsert_fresh:
  "distinct (map vector_id vs) \<Longrightarrow> vector_id ` set vs \<inter> vector_id ` set idx = {} \<Longrightarrow>
     foldl upsert_one idx vs = idx @ vs"
proof (induction vs arbitrary: idx)
  case Nil
  then show ?case by simp
next
  case (Cons v vs)
  from Cons.prems have f: "vector_id v \<notin> vector_id ` set idx" by auto
  from Cons.prems have "vector_id ` set vs \<inter> vector_id ` set (idx @ [v]) = {}" by auto
  with Cons.IH [of "idx @ [v]"] Cons.prems(1) f show ?case by (simp add: upsert_one_fresh)
qed

lemma prepare_vectors_ids:
  "map vector_id (prepare_vectors fid fname chunks embs extra) =
     map (\<lambda>i. fid @ py ''_chunk_'' @ str_nat i) [0..<min (length chunks) (length embs)]"
  by (rule nth_equalityI) (simp_all add: prepare_vectors_length prepare_vectors_nth chunk_vector_id)

lemma prepare_vectors_distinct:
  "distinct (map vector_id (prepare_vectors fid fname chunks embs extra))"
proof -
  have "inj_on (\<lambda>i. fid @ py ''_chunk_'' @ str_nat i) A" for A
    by (rule inj_onI) (simp add: str_nat_inj)
  then show ?thesis
    by (simp add: prepare_vectors_ids distinct_map)
qed

lemma prepare_vectors_match:
  assumes "extra_keeps (py ''file_id'') extra" and "v \<in> set (prepare_vectors fid fname chunks embs extra)"
  shows "matches_filter (FileIdEq fid) v"
proof -
  from assms(2) obtain i where i: "i < min (length chunks) (length embs)"
    and v: "v = prepare_vectors fid fname chunks embs extra ! i"
    by (auto simp: in_set_conv_nth prepare_vectors_length)
  with assms(1) show ?thesis by (simp add: prepare_vectors_nth chunk_vector_field)
qed

lemma prepare_vectors_chunk_index:
  assumes "extra_keeps (py ''chunk_index'') extra"
  shows "map (\<lambda>v. dict_get (metadata v) (py ''chunk_index'') d) (prepare_vectors fid fname chunks embs extra) =
         map (\<lambda>i. VInt (int i)) [0..<min (length chunks) (length embs)]"
  using assms
  by (intro nth_equalityI)
     (simp_all add: prepare_vectors_length prepare_vectors_nth chunk_vector_field dict_get_def)

lemma process_document_index: "index (snd (process_document env w p)) = index w"
  by (simp add: process_document_def Let_def extract_text_from_pdf_def extract_text_from_docx_def
      extract_text_from_txt_def open_file_def split: sum.splits option.splits)

lemma generate_embeddings_index: "index (snd (generate_embeddings env w texts)) = index w"
  by (simp add: generate_embeddings_def)

lemma upload_file_try_success:
  assumes "upload_file_try env w file_path fid name data mb now now' = (Inr r, w')"
  shows "\<exists>chunks embs w2. index w2 = index w \<and>
           upsert_chunks env w2 fid name chunks embs
             (Some [(py ''upload_date'', VStr now),
                    (py ''file_size_mb'', VFloat (round_float env mb 2))]) = (Inr (vectors_stored r), w') \<and>
           num_chunks r = length chunks \<and> num_embeddings r = length embs"
proof -
  obtain r1 w1 where p: "process_document env w file_path = (r1, w1)"
    by (cases "process_document env w file_path")
  have i1: "index w1 = index w" using process_document_index [of env w file_path] p by simp
  from assms p obtain extracted where ex: "r1 = Inr extracted"
    by (cases r1) (simp_all add: upload_file_try_def)
  from assms p ex obtain chunks where ch: "chunk_text (split_text env) extracted CHUNK_SIZE CHUNK_OVERLAP = Inr chunks"
    by (cases "chunk_text (split_text env) extracted CHUNK_SIZE CHUNK_OVERLAP")
       (simp_all add: upload_file_try_def split: if_splits)
  obtain r2 w2 where g: "generate_embeddings env w1 chunks = (r2, w2)"
    by (cases "generate_embeddings env w1 chunks")
  have i2: "index w2 = index w" using generate_embeddings_index [of env w1 chunks] g i1 by simp
  from assms p ex ch g obtain embs where em: "r2 = Inr embs"
    by (cases r2) (simp_all add: upload_file_try_def split: if_splits)
  let ?extra = "Some [(py ''upload_date'', VStr now), (py ''file_size_mb'', VFloat (round_float env mb 2))]"
  obtain r3 w3 where u: "upsert_chunks env w2 fid name chunks embs ?extra = (r3, w3)"
    by (cases "upsert_chunks env w2 fid name chunks embs ?extra")
  from assms p ex ch g em u obtain k where k: "r3 = Inr k"
    by (cases r3) (simp_all add: upload_file_try_def split: if_splits)
  from assms p ex ch g em u k have "w' = w3" "vectors_stored r = k"
      "num_chunks r = length chunks" "num_embeddings r = length embs"
    by (auto simp: upload_file_try_def split: if_splits)
  with u k i2 show ?thesis by blast
qed

lemma upload_file_success:
  assumes "upload_file env w upl fid now now' = (Inr r, w')"
  shows "\<exists>name mb chunks embs w2. index w2 = index w \<and>
           upsert_chunks env w2 fid name chunks embs
             (Some [(py ''upload_date'', VStr now),
                    (py ''file_size_mb'', VFloat (round_float env mb 2))]) = (Inr (vectors_stored r), w') \<and>
           num_chunks r = length chunks \<and> num_embeddings r = length embs"
proof -
  from assms obtain name where nm: "filename upl = Some name" and v: "validate_file env upl = Inr ()"
    by (cases "validate_file env upl"; cases "filename upl") (simp_all add: upload_file_def)
  let ?mb = "rat_of_nat (length (file_bytes upl)) / (1024 * 1024)"
  let ?u = "fid @ path_suffix env name"
  let ?saved = "w\<lparr>upload_dir := AList.update ?u (file_bytes upl) (upload_dir w)\<rparr>"
  from assms nm v have t: "upload_file_try env ?saved ?u fid name (file_bytes upl) ?mb now now' = (Inr r, w')"
    by (auto simp: upload_file_def Let_def split: if_splits sum.splits prod.splits)
  from upload_file_try_success [OF t] obtain chunks embs w2 where
    "index w2 = index w"
    "upsert_chunks env w2 fid name chunks embs
       (Some [(py ''upload_date'', VStr now),
              (py ''file_size_mb'', VFloat (round_float env ?mb 2))]) = (Inr (vectors_stored r), w')"
    "num_chunks r = length chunks" "num_embeddings r = length embs"
    by auto
  then show ?thesis by blast
qed

lemma upload_extra_keeps:
  "extra_keeps (py ''file_id'') (Some [(py ''upload_date'', a), (py ''file_size_mb'', b)])"
  "extra_keeps (py ''chunk_index'') (Some [(py ''upload_date'', a), (py ''file_size_mb'', b)])"
  by (simp_all add: extra_keeps_def)

lemma filter_prepared:
  assumes "extra_keeps (py ''file_id'') extra"
    and "\<forall>v \<in> set idx. \<not> matches_filter (FileIdEq fid) v"
  shows "filter (matches_filter (FileIdEq fid)) (idx @ prepare_vectors fid fname chunks embs extra) =
           prepare_vectors fid fname chunks embs extra"
    and "filter (\<lambda>v. \<not> matches_filter (FileIdEq fid) v) (idx @ prepare_vectors fid fname chunks embs extra) = idx"
  using assms prepare_vectors_match [of extra _ fid fname chunks embs]
  by (auto simp: filter_empty_conv filter_id_conv)

lemma delete_by_file_id_index:
  assumes "delete_by_file_id env u fid = (True, u')"
  shows "index u' = filter (\<lambda>v. \<not> matches_filter (FileIdEq fid) v) (index u)"
  using assms
  by (auto simp: delete_by_file_id_def index_delete_def Let_def split: option.splits)

lemma delete_file_index:
  assumes "fst (delete_file env u fid) = Inr ok"
    and "index_delete_raises env (index u) (FileIdEq fid) = None"
  shows "index (snd (delete_file env u fid)) =
           filter (\<lambda>v. \<not> matches_filter (FileIdEq fid) v) (index u)"
  using assms
  by (auto simp: delete_file_def delete_by_file_id_def index_delete_def Let_def
      split: option.splits prod.splits)

section \<open>Facts about the concrete environment\<close>

lemma local_env_sel:
  "split_text local_env = one_piece"
  "path_suffix local_env = posix_suffix"
  "path_stem local_env = posix_stem"
  "str_lower local_env = ascii_lower"
  "read_utf8 local_env = ascii_text"
  "encode local_env = (\<lambda>texts. Inr (map (\<lambda>t. [rat_of_nat (length t)]) texts))"
  "index_upsert_raises local_env = (\<lambda>idx batch. None)"
  "index_delete_raises local_env = (\<lambda>idx flt. None)"
  "index_query local_env = first_entries"
  "generate_content local_env = (\<lambda>prompt. Inr (py ''answer''))"
  "round_float local_env = (\<lambda>x ndigits. x)"
  "pydantic_str local_env = str_field"
  "pydantic_int local_env = int_field"
  by (simp_all add: local_env_def)

lemma suffix_txt: "posix_suffix (py ''notes.txt'') = py ''.txt''"
  by (simp add: posix_suffix_def posix_name_def py_def)

lemma suffix_id1: "posix_suffix (py ''id1.txt'') = py ''.txt''"
  by (simp add: posix_suffix_def posix_name_def py_def)

lemma suffix_exe: "posix_suffix (py ''tool.exe'') = py ''.exe''"
  by (simp add: posix_suffix_def posix_name_def py_def)

lemma lower_txt: "ascii_lower (py ''.txt'') = py ''.txt''"
  by (simp add: ascii_lower_def py_def)

lemma lower_exe: "ascii_lower (py ''.exe'') = py ''.exe''"
  by (simp add: ascii_lower_def py_def)

lemma validate_notes: "validate_file local_env \<lparr>filename = Some (py ''notes.txt''), file_bytes = b\<rparr> = Inr ()"
  by (simp add: validate_file_def local_env_sel suffix_txt lower_txt ALLOWED_EXTENSIONS_def) (simp add: py_def)

lemma blank_spaces: "blank [32, 32, 32]"
  by (simp add: blank_def strip_def isspace_def)

lemma run_blank:
  "upload_file local_env empty_world \<lparr>filename = Some (py ''notes.txt''), file_bytes = [32, 32, 32]\<rparr>
      (py ''id1'') now now' =
    (Inl (HTTPException 500 (py ''Failed to process document: '' @ py ''No text could be extracted from the document'')),
     empty_world\<lparr>calls := [Extract (py ''id1.txt'')]\<rparr>)"
proof -
  have u: "py ''id1'' @ py ''.txt'' = py ''id1.txt''" by (simp add: py_def)
  have p: "process_document local_env
             \<lparr>upload_dir = [(py ''id1.txt'', [32, 32, 32])], index = [], calls = []\<rparr> (py ''id1.txt'') =
           (Inr [32, 32, 32], \<lparr>upload_dir = [(py ''id1.txt'', [32, 32, 32])], index = [],
                                        calls = [Extract (py ''id1.txt'')]\<rparr>)"
    by (simp add: process_document_def local_env_sel suffix_id1 lower_txt extract_text_from_txt_def
        open_file_def ascii_text_def)
  have t: "upload_file_try local_env \<lparr>upload_dir = [(py ''id1.txt'', [32, 32, 32])], index = [], calls = []\<rparr>
             (py ''id1.txt'') (py ''id1'') (py ''notes.txt'') [32, 32, 32] mb now now' =
           (Inl (ValueError (py ''No text could be extracted from the document'')),
            \<lparr>upload_dir = [(py ''id1.txt'', [32, 32, 32])], index = [],
                         calls = [Extract (py ''id1.txt'')]\<rparr>)" for mb
    by (simp add: upload_file_try_def p blank_spaces)
  show ?thesis
    by (simp add: upload_file_def validate_notes Let_def MAX_FILE_SIZE_MB_def
          local_env_sel suffix_txt u empty_world_def t)
qed

lemma run_upsert_long:
  "upsert_chunks local_env empty_world (py ''doc'') (py ''a.txt'') [replicate 1001 97] [[7]] None =
     (Inr 1, \<lparr>upload_dir = [],
              index = prepare_vectors (py ''doc'') (py ''a.txt'') [replicate 1001 97] [[7]] None,
              calls = [Upsert (prepare_vectors (py ''doc'') (py ''a.txt'') [replicate 1001 97] [[7]] None)]\<rparr>)"
proof -
  have l: "length (prepare_vectors (py ''doc'') (py ''a.txt'') [replicate 1001 97] [[7]] None) = 1"
    by (simp add: prepare_vectors_length)
  then obtain v where v: "prepare_vectors (py ''doc'') (py ''a.txt'') [replicate 1001 97] [[7]] None = [v]"
    by (cases "prepare_vectors (py ''doc'') (py ''a.txt'') [replicate 1001 97] [[7]] None") auto
  show ?thesis
    by (simp add: upsert_chunks_def v upsert_batches.simps [of _ _ _ 0] upsert_batches.simps [of _ _ _ 100]
        index_upsert_def local_env_sel empty_world_def Let_def)
qed

lemma two_vectors:
  "prepare_vectors (py ''doc'') (py ''a.txt'') [py ''first chunk'', py ''second chunk''] [[1], [2]] None =
     [\<lparr>vector_id = py ''doc_chunk_0'', vector_values = [1],
        metadata = [(py ''file_id'', VStr (py ''doc'')), (py ''filename'', VStr (py ''a.txt'')),
                    (py ''chunk_index'', VInt 0), (py ''chunk_text'', VStr (py ''first chunk'')),
                    (py ''text_length'', VInt 11)]\<rparr>,
      \<lparr>vector_id = py ''doc_chunk_1'', vector_values = [2],
        metadata = [(py ''file_id'', VStr (py ''doc'')), (py ''filename'', VStr (py ''a.txt'')),
                    (py ''chunk_index'', VInt 1), (py ''chunk_text'', VStr (py ''second chunk'')),
                    (py ''text_length'', VInt 12)]\<rparr>]"
  by (simp add: prepare_vectors_def enumerate_eq_zip chunk_vector_def Let_def str_nat.simps upt_rec)
     (simp add: py_def)

lemma flaky_env_sel:
  "split_text flaky_env = fixed_pieces"
  "path_suffix flaky_env = posix_suffix"
  "str_lower flaky_env = ascii_lower"
  "read_utf8 flaky_env = ascii_text"
  "encode flaky_env = (\<lambda>texts. Inr (map (\<lambda>t. [rat_of_nat (length t)]) texts))"
  "index_upsert_raises flaky_env = (\<lambda>idx batch. if idx = [] then None else Some (Exception (py ''upsert failed'')))"
  "round_float flaky_env = (\<lambda>x ndigits. x)"
  by (simp_all add: flaky_env_def local_env_def)

lemma chop_replicate:
  "0 < n \<Longrightarrow> 0 < r \<Longrightarrow> r \<le> n \<Longrightarrow>
     chop n (replicate (k * n + r) x) = replicate k (replicate n x) @ [replicate r x]"
proof (induction k)
  case 0
  then show ?case
    by (simp add: chop.simps [of n "replicate r x"] chop.simps [of n "[]"] min_def)
next
  case (Suc k)
  have d: "drop n (replicate (Suc k * n + r) x) = replicate (k * n + r) x" by simp
  have t: "take n (replicate (Suc k * n + r) x) = replicate n x" by (simp add: min_def)
  from Suc.prems have ne: "replicate (Suc k * n + r) x \<noteq> []" by simp
  from Suc show ?case
    by (subst chop.simps) (simp only: d t ne, simp)
qed

lemma one_batch:
  assumes "index_upsert_raises env (index w) vs = None" and "vs \<noteq> []" and "length vs \<le> 100"
  shows "upsert_batches env w vs 0 0 =
     (Inr (length vs), w\<lparr>calls := calls w @ [Upsert vs], index := foldl upsert_one (index w) vs\<rparr>)"
  using assms
  by (simp add: upsert_batches.simps [of _ _ _ 0] upsert_batches.simps [of _ _ _ 100]
      index_upsert_def Let_def)

lemma flaky_batches:
  assumes "index w = []" and "100 < length vs" and "distinct (map vector_id vs)"
  shows "upsert_batches flaky_env w vs 0 0 =
     (Inl (Exception (py ''upsert failed'')),
      w\<lparr>calls := calls w @ [Upsert (take 100 vs), Upsert (take 100 (drop 100 vs))],
        index := take 100 vs\<rparr>)"
proof -
  have "distinct (map vector_id (take 100 vs))"
    using assms(3) by (simp add: distinct_take take_map [symmetric])
  then have f: "foldl upsert_one [] (take 100 vs) = take 100 vs"
    using foldl_upsert_fresh [of "take 100 vs" "[]"] by simp
  have ne: "take 100 vs \<noteq> []" using assms(2) by auto
  show ?thesis
    using assms(1,2) f ne
    by (simp add: upsert_batches.simps [of _ _ _ 0] upsert_batches.simps [of _ _ _ 100]
        index_upsert_def Let_def flaky_env_sel)
qed

lemma suffix_book: "posix_suffix (py ''book.txt'') = py ''.txt''"
  by (simp add: posix_suffix_def posix_name_def py_def)

lemma suffix_id2: "posix_suffix (py ''id2.txt'') = py ''.txt''"
  by (simp add: posix_suffix_def posix_name_def py_def)

lemma validate_book:
  "validate_file flaky_env \<lparr>filename = Some (py ''book.txt''), file_bytes = b\<rparr> = Inr ()"
  by (simp add: validate_file_def flaky_env_sel suffix_book lower_txt ALLOWED_EXTENSIONS_def)
     (simp add: py_def)

lemma book_chunks:
  "chunk_text fixed_pieces (replicate 100060 97) CHUNK_SIZE CHUNK_OVERLAP =
     Inr (replicate 100 (replicate 1000 97) @ [replicate 60 97])"
proof -
  have "chop 1000 (replicate (100 * 1000 + 60) 97) = replicate 100 (replicate 1000 97) @ [replicate 60 97]"
    by (rule chop_replicate) simp_all
  then have c: "chop 1000 (replicate 100060 97) = replicate 100 (replicate 1000 97) @ [replicate 60 97]"
    by simp
  have nb: "\<not> blank (replicate 100060 97)"
    by (simp add: blank_def strip_replicate not_isspace_a)
  show ?thesis
    by (simp add: chunk_text_def nb fixed_pieces_def CHUNK_SIZE_def c strip_replicate not_isspace_a)
qed

lemma book_try:
  "\<exists>vs cs. length vs = 100 \<and> (\<forall>v \<in> set vs. matches_filter (FileIdEq (py ''id2'')) v) \<and>
     upload_file_try flaky_env
       \<lparr>upload_dir = [(py ''id2.txt'', replicate 100060 97)], index = [], calls = []\<rparr>
       (py ''id2.txt'') (py ''id2'') (py ''book.txt'') (replicate 100060 97) mb now now' =
     (Inl (Exception (py ''upsert failed'')),
      \<lparr>upload_dir = [(py ''id2.txt'', replicate 100060 97)], index = vs, calls = cs\<rparr>)"
proof -
  define chunks where "chunks = replicate 100 (replicate 1000 (97::nat)) @ [replicate 60 97]"
  define embs where "embs = map (\<lambda>t. [rat_of_nat (length t)]) chunks"
  define extra where "extra = Some [(py ''upload_date'', VStr now), (py ''file_size_mb'', VFloat mb)]"
  define vs where "vs = prepare_vectors (py ''id2'') (py ''book.txt'') chunks embs extra"
  define saved where "saved = \<lparr>upload_dir = [(py ''id2.txt'', replicate 100060 (97::8 word))], index = [], calls = []\<rparr>"
  have cne: "chunks \<noteq> []" and clen: "length chunks = 101" by (simp_all add: chunks_def)
  have elen: "length embs = 101" by (simp add: embs_def clen)
  have vlen: "length vs = 101" by (simp add: vs_def prepare_vectors_length clen elen)
  have p: "process_document flaky_env saved (py ''id2.txt'') =
           (Inr (replicate 100060 97), saved\<lparr>calls := [Extract (py ''id2.txt'')]\<rparr>)"
    by (simp add: process_document_def flaky_env_sel suffix_id2 lower_txt extract_text_from_txt_def
        open_file_def saved_def ascii_text_def list_all_iff)
  have nb: "\<not> blank (replicate 100060 97)"
    by (simp add: blank_def strip_replicate not_isspace_a)
  have ch: "chunk_text fixed_pieces (replicate 100060 97) CHUNK_SIZE CHUNK_OVERLAP = Inr chunks"
    by (simp add: book_chunks chunks_def)
  have g: "generate_embeddings flaky_env (saved\<lparr>calls := [Extract (py ''id2.txt'')]\<rparr>) chunks =
           (Inr embs, saved\<lparr>calls := [Extract (py ''id2.txt''), Encode chunks]\<rparr>)"
    by (simp add: generate_embeddings_def cne flaky_env_sel embs_def)
  have b: "upsert_batches flaky_env (saved\<lparr>calls := [Extract (py ''id2.txt''), Encode chunks]\<rparr>) vs 0 0 =
     (Inl (Exception (py ''upsert failed'')),
      saved\<lparr>calls := [Extract (py ''id2.txt''), Encode chunks, Upsert (take 100 vs),
                       Upsert (take 100 (drop 100 vs))],
            index := take 100 vs\<rparr>)"
  proof -
    have i: "index (saved\<lparr>calls := [Extract (py ''id2.txt''), Encode chunks]\<rparr>) = []"
      by (simp add: saved_def)
    have l: "100 < length vs" by (simp add: vlen)
    have d: "distinct (map vector_id vs)" by (simp add: vs_def prepare_vectors_distinct)
    from flaky_batches [OF i l d] show ?thesis by simp
  qed
  have up: "upsert_chunks flaky_env (saved\<lparr>calls := [Extract (py ''id2.txt''), Encode chunks]\<rparr>)
              (py ''id2'') (py ''book.txt'') chunks embs extra =
     (Inl (Exception (py ''upsert failed'')),
      saved\<lparr>calls := [Extract (py ''id2.txt''), Encode chunks, Upsert (take 100 vs),
                       Upsert (take 100 (drop 100 vs))],
            index := take 100 vs\<rparr>)"
    using b by (simp add: upsert_chunks_def clen elen vs_def)
  have t: "upload_file_try flaky_env saved (py ''id2.txt'') (py ''id2'') (py ''book.txt'')
             (replicate 100060 97) mb now now' =
     (Inl (Exception (py ''upsert failed'')),
      saved\<lparr>calls := [Extract (py ''id2.txt''), Encode chunks, Upsert (take 100 vs),
                       Upsert (take 100 (drop 100 vs))],
            index := take 100 vs\<rparr>)"
    using up
    by (simp add: upload_file_try_def p nb flaky_env_sel ch cne g extra_def)
  have m: "\<forall>v \<in> set (take 100 vs). matches_filter (FileIdEq (py ''id2'')) v"
  proof
    fix v assume "v \<in> set (take 100 vs)"
    then have "v \<in> set vs" by (rule in_set_takeD)
    moreover have "extra_keeps (py ''file_id'') extra"
      by (simp add: extra_def upload_extra_keeps)
    ultimately show "matches_filter (FileIdEq (py ''id2'')) v"
      unfolding vs_def by (rule prepare_vectors_match [rotated])
  qed
  have "length (take 100 vs) = 100" by (simp add: vlen)
  with m t show ?thesis unfolding saved_def by (simp only: world.simps) blast
qed

lemma run_book:
  "\<exists>vs cs. length vs = 100 \<and> (\<forall>v \<in> set vs. matches_filter (FileIdEq (py ''id2'')) v) \<and>
   upload_file flaky_env empty_world \<lparr>filename = Some (py ''book.txt''), file_bytes = replicate 100060 97\<rparr>
      (py ''id2'') now now' =
   (Inl (HTTPException 500 (py ''Failed to process document: '' @ py ''upsert failed'')),
    \<lparr>upload_dir = [], index = vs, calls = cs\<rparr>)"
proof -
  have u: "py ''id2'' @ py ''.txt'' = py ''id2.txt''" by (simp add: py_def)
  have small: "\<not> MAX_FILE_SIZE_MB < rat_of_nat 100060 / (1024 * 1024)"
    by (simp add: MAX_FILE_SIZE_MB_def)
  from book_try [of "rat_of_nat 100060 / (1024 * 1024)" now now'] obtain vs cs where
    l: "length vs = 100" and m: "\<forall>v \<in> set vs. matches_filter (FileIdEq (py ''id2'')) v"
    and t: "upload_file_try flaky_env
       \<lparr>upload_dir = [(py ''id2.txt'', replicate 100060 97)], index = [], calls = []\<rparr>
       (py ''id2.txt'') (py ''id2'') (py ''book.txt'') (replicate 100060 97)
       (rat_of_nat 100060 / (1024 * 1024)) now now' =
     (Inl (Exception (py ''upsert failed'')),
      \<lparr>upload_dir = [(py ''id2.txt'', replicate 100060 97)], index = vs, calls = cs\<rparr>)"
    by blast
  have "upload_file flaky_env empty_world \<lparr>filename = Some (py ''book.txt''), file_bytes = replicate 100060 97\<rparr>
      (py ''id2'') now now' =
   (Inl (HTTPException 500 (py ''Failed to process document: '' @ py ''upsert failed'')),
    \<lparr>upload_dir = [], index = vs, calls = cs\<rparr>)"
    using small t
    by (simp add: upload_file_def validate_book Let_def flaky_env_sel suffix_book u empty_world_def)
  with l m show ?thesis by blast
qed

lemma run_notes:
  "\<exists>r cs. num_chunks r = 1 \<and>
     upload_file local_env empty_world \<lparr>filename = Some (py ''notes.txt''), file_bytes = replicate 60 97\<rparr>
        (py ''id1'') now now' =
     (Inr r, \<lparr>upload_dir = [(py ''id1.txt'', replicate 60 97)],
              index = prepare_vectors (py ''id1'') (py ''notes.txt'') [replicate 60 97] [[60]]
                        (Some [(py ''upload_date'', VStr now),
                               (py ''file_size_mb'', VFloat (rat_of_nat 60 / (1024 * 1024)))]),
              calls = cs\<rparr>)"
proof -
  define extra where "extra = Some [(py ''upload_date'', VStr now),
                               (py ''file_size_mb'', VFloat (rat_of_nat 60 / (1024 * 1024)))]"
  define vs where "vs = prepare_vectors (py ''id1'') (py ''notes.txt'') [replicate 60 97] [[60]] extra"
  define saved where "saved = \<lparr>upload_dir = [(py ''id1.txt'', replicate 60 (97::8 word))], index = [], calls = []\<rparr>"
  have u: "py ''id1'' @ py ''.txt'' = py ''id1.txt''" by (simp add: py_def)
  have vlen: "length vs = 1" by (simp add: vs_def prepare_vectors_length)
  have p: "process_document local_env saved (py ''id1.txt'') =
           (Inr (replicate 60 97), saved\<lparr>calls := [Extract (py ''id1.txt'')]\<rparr>)"
    by (simp add: process_document_def local_env_sel suffix_id1 lower_txt extract_text_from_txt_def
        open_file_def saved_def ascii_text_def list_all_iff)
  have nb: "\<not> blank (replicate 60 97)"
    by (simp add: blank_def strip_replicate not_isspace_a)
  have ch: "chunk_text one_piece (replicate 60 97) CHUNK_SIZE CHUNK_OVERLAP = Inr [replicate 60 97]"
    by (simp add: chunk_text_def nb one_piece_def strip_replicate not_isspace_a)
  have g: "generate_embeddings local_env (saved\<lparr>calls := [Extract (py ''id1.txt'')]\<rparr>) [replicate 60 97] =
           (Inr [[60]], saved\<lparr>calls := [Extract (py ''id1.txt''), Encode [replicate 60 97]]\<rparr>)"
    by (simp add: generate_embeddings_def local_env_sel)
  have b: "upsert_batches local_env (saved\<lparr>calls := [Extract (py ''id1.txt''), Encode [replicate 60 97]]\<rparr>) vs 0 0 =
     (Inr 1, saved\<lparr>calls := [Extract (py ''id1.txt''), Encode [replicate 60 97], Upsert vs], index := vs\<rparr>)"
  proof -
    let ?w = "saved\<lparr>calls := [Extract (py ''id1.txt''), Encode [replicate 60 97]]\<rparr>"
    have a: "index_upsert_raises local_env (index ?w) vs = None" by (simp add: local_env_sel)
    have n: "vs \<noteq> []" using vlen by auto
    have l: "length vs \<le> 100" using vlen by simp
    have f: "foldl upsert_one (index saved) vs = vs"
      using foldl_upsert_fresh [of vs "[]"] by (simp add: saved_def vs_def prepare_vectors_distinct)
    from one_batch [OF a n l] show ?thesis by (simp add: f vlen)
  qed
  have up: "upsert_chunks local_env (saved\<lparr>calls := [Extract (py ''id1.txt''), Encode [replicate 60 97]]\<rparr>)
              (py ''id1'') (py ''notes.txt'') [replicate 60 97] [[60]] extra =
     (Inr 1, saved\<lparr>calls := [Extract (py ''id1.txt''), Encode [replicate 60 97], Upsert vs], index := vs\<rparr>)"
    using b by (simp add: upsert_chunks_def vs_def)
  have t: "\<exists>r. num_chunks r = 1 \<and> upload_file_try local_env saved (py ''id1.txt'') (py ''id1'') (py ''notes.txt'')
             (replicate 60 97) (rat_of_nat 60 / (1024 * 1024)) now now' =
     (Inr r, saved\<lparr>calls := [Extract (py ''id1.txt''), Encode [replicate 60 97], Upsert vs], index := vs\<rparr>)"
    using up
    by (simp add: upload_file_try_def p nb local_env_sel ch g extra_def)
  then obtain r where nc: "num_chunks r = 1" and t': "upload_file_try local_env saved (py ''id1.txt'') (py ''id1'') (py ''notes.txt'')
             (replicate 60 97) (rat_of_nat 60 / (1024 * 1024)) now now' =
     (Inr r, saved\<lparr>calls := [Extract (py ''id1.txt''), Encode [replicate 60 97], Upsert vs], index := vs\<rparr>)"
    by blast
  have small: "\<not> MAX_FILE_SIZE_MB < rat_of_nat 60 / (1024 * 1024)"
    by (simp add: MAX_FILE_SIZE_MB_def)
  have "upload_file local_env empty_world \<lparr>filename = Some (py ''notes.txt''), file_bytes = replicate 60 97\<rparr>
        (py ''id1'') now now' =
     (Inr r, \<lparr>upload_dir = [(py ''id1.txt'', replicate 60 97)], index = vs,
              calls = [Extract (py ''id1.txt''), Encode [replicate 60 97], Upsert vs]\<rparr>)"
    using small t' [unfolded saved_def]
    by (simp add: upload_file_def validate_notes Let_def local_env_sel suffix_txt u empty_world_def)
  with nc show ?thesis unfolding vs_def extra_def by blast
qed

lemma stem_id1: "posix_stem (py ''id1.txt'') = py ''id1''"
  by (simp add: posix_stem_def posix_suffix_def posix_name_def py_def)

lemma delete_notes:
  "fst (delete_file local_env
         \<lparr>upload_dir = [(py ''id1.txt'', b)], index = idx, calls = cs\<rparr> (py ''id1'')) =
     Inr (True, py ''File deleted successfully'') \<and>
   upload_dir (snd (delete_file local_env
         \<lparr>upload_dir = [(py ''id1.txt'', b)], index = idx, calls = cs\<rparr> (py ''id1''))) = []"
  by (simp add: delete_file_def local_env_sel stem_id1 delete_by_file_id_def index_delete_def Let_def)

lemma chopping_env_sel:
  "split_text chopping_env = fixed_pieces"
  "path_suffix chopping_env = posix_suffix"
  "path_stem chopping_env = posix_stem"
  "str_lower chopping_env = ascii_lower"
  "read_utf8 chopping_env = ascii_text"
  "encode chopping_env = (\<lambda>texts. Inr (map (\<lambda>t. [rat_of_nat (length t)]) texts))"
  "index_upsert_raises chopping_env = (\<lambda>idx batch. None)"
  "index_delete_raises chopping_env = (\<lambda>idx flt. None)"
  "round_float chopping_env = (\<lambda>x ndigits. x)"
  by (simp_all add: chopping_env_def local_env_def)

lemma deaf_index_env_sel:
  "path_stem deaf_index_env = posix_stem"
  "index_delete_raises deaf_index_env = (\<lambda>idx flt. Some (Exception (py ''delete failed'')))"
  by (simp_all add: deaf_index_env_def local_env_def)

lemma validate_notes_chopping:
  "validate_file chopping_env \<lparr>filename = Some (py ''notes.txt''), file_bytes = b\<rparr> = Inr ()"
  by (simp add: validate_file_def chopping_env_sel suffix_txt lower_txt ALLOWED_EXTENSIONS_def)
     (simp add: py_def)

lemma two_chunks:
  "chunk_text fixed_pieces (replicate 1060 97) CHUNK_SIZE CHUNK_OVERLAP =
     Inr [replicate 1000 97, replicate 60 97]"
proof -
  have "chop 1000 (replicate (1 * 1000 + 60) 97) = replicate 1 (replicate 1000 97) @ [replicate 60 97]"
    by (rule chop_replicate) simp_all
  then have c: "chop 1000 (replicate 1060 97) = [replicate 1000 97, replicate 60 97]"
    by simp
  have nb: "\<not> blank (replicate 1060 97)"
    by (simp add: blank_def strip_replicate not_isspace_a)
  show ?thesis
    by (simp add: chunk_text_def nb fixed_pieces_def CHUNK_SIZE_def c strip_replicate not_isspace_a)
qed

lemma run_stocked:
  "\<exists>r cs idx. num_chunks r = 2 \<and>
     upload_file chopping_env stocked_world
        \<lparr>filename = Some (py ''notes.txt''), file_bytes = replicate 1060 97\<rparr> (py ''id1'') now now' =
     (Inr r, \<lparr>upload_dir = [(py ''old.txt'', [107, 101, 112, 116]), (py ''id1.txt'', replicate 1060 97)],
              index = idx, calls = cs\<rparr>)"
proof -
  define mb where "mb = rat_of_nat 1060 / (1024 * 1024)"
  define extra where "extra = Some [(py ''upload_date'', VStr now), (py ''file_size_mb'', VFloat mb)]"
  define chunks where "chunks = [replicate 1000 (97::nat), replicate 60 97]"
  define vs where "vs = prepare_vectors (py ''id1'') (py ''notes.txt'') chunks [[1000], [60]] extra"
  define saved where "saved = \<lparr>upload_dir = [(py ''old.txt'', [107, 101, 112, 116 :: 8 word]),
                                             (py ''id1.txt'', replicate 1060 97)],
                               index = [old_entry], calls = []\<rparr>"
  have u: "py ''id1'' @ py ''.txt'' = py ''id1.txt''" by (simp add: py_def)
  have vlen: "length vs = 2" by (simp add: vs_def prepare_vectors_length chunks_def)
  have p: "process_document chopping_env saved (py ''id1.txt'') =
           (Inr (replicate 1060 97), saved\<lparr>calls := [Extract (py ''id1.txt'')]\<rparr>)"
    by (simp add: process_document_def chopping_env_sel suffix_id1 lower_txt extract_text_from_txt_def
        open_file_def saved_def ascii_text_def list_all_iff)
  have nb: "\<not> blank (replicate 1060 97)"
    by (simp add: blank_def strip_replicate not_isspace_a)
  have ch: "chunk_text fixed_pieces (replicate 1060 97) CHUNK_SIZE CHUNK_OVERLAP = Inr chunks"
    by (simp add: two_chunks chunks_def)
  have cne: "chunks \<noteq> []" by (simp add: chunks_def)
  have g: "generate_embeddings chopping_env (saved\<lparr>calls := [Extract (py ''id1.txt'')]\<rparr>) chunks =
           (Inr [[1000], [60]], saved\<lparr>calls := [Extract (py ''id1.txt''), Encode chunks]\<rparr>)"
    by (simp add: generate_embeddings_def chopping_env_sel chunks_def)
  have b: "upsert_batches chopping_env (saved\<lparr>calls := [Extract (py ''id1.txt''), Encode chunks]\<rparr>) vs 0 0 =
     (Inr 2, saved\<lparr>calls := [Extract (py ''id1.txt''), Encode chunks, Upsert vs],
                   index := foldl upsert_one [old_entry] vs\<rparr>)"
  proof -
    let ?w = "saved\<lparr>calls := [Extract (py ''id1.txt''), Encode chunks]\<rparr>"
    have a: "index_upsert_raises chopping_env (index ?w) vs = None" by (simp add: chopping_env_sel)
    have n: "vs \<noteq> []" using vlen by auto
    have l: "length vs \<le> 100" using vlen by simp
    from one_batch [OF a n l] show ?thesis by (simp add: vlen saved_def)
  qed
  have up: "upsert_chunks chopping_env (saved\<lparr>calls := [Extract (py ''id1.txt''), Encode chunks]\<rparr>)
              (py ''id1'') (py ''notes.txt'') chunks [[1000], [60]] extra =
     (Inr 2, saved\<lparr>calls := [Extract (py ''id1.txt''), Encode chunks, Upsert vs],
                   index := foldl upsert_one [old_entry] vs\<rparr>)"
    using b by (simp add: upsert_chunks_def vs_def chunks_def)
  have t: "\<exists>r. num_chunks r = 2 \<and>
      upload_file_try chopping_env saved (py ''id1.txt'') (py ''id1'') (py ''notes.txt'')
             (replicate 1060 97) mb now now' =
     (Inr r, saved\<lparr>calls := [Extract (py ''id1.txt''), Encode chunks, Upsert vs],
                   index := foldl upsert_one [old_entry] vs\<rparr>)"
    using up
    by (simp add: upload_file_try_def p nb chopping_env_sel ch cne g extra_def) (simp add: chunks_def)
  then obtain r where nc: "num_chunks r = 2" and t': "upload_file_try chopping_env saved (py ''id1.txt'')
      (py ''id1'') (py ''notes.txt'') (replicate 1060 97) mb now now' =
     (Inr r, saved\<lparr>calls := [Extract (py ''id1.txt''), Encode chunks, Upsert vs],
                   index := foldl upsert_one [old_entry] vs\<rparr>)"
    by blast
  have small: "\<not> MAX_FILE_SIZE_MB < rat_of_nat 1060 / (1024 * 1024)"
    by (simp add: MAX_FILE_SIZE_MB_def)
  have n: "py ''old.txt'' \<noteq> py ''id1.txt''" by simp
  have "upload_file chopping_env stocked_world
        \<lparr>filename = Some (py ''notes.txt''), file_bytes = replicate 1060 97\<rparr> (py ''id1'') now now' =
     (Inr r, \<lparr>upload_dir = [(py ''old.txt'', [107, 101, 112, 116]), (py ''id1.txt'', replicate 1060 97)],
              index = foldl upsert_one [old_entry] vs,
              calls = [Extract (py ''id1.txt''), Encode chunks, Upsert vs]\<rparr>)"
    using small t' [unfolded saved_def mb_def] n
    by (simp add: upload_file_def validate_notes_chopping Let_def chopping_env_sel suffix_txt u
        stocked_world_def)
  with nc show ?thesis by blast
qed

lemma stem_old: "posix_stem (py ''old.txt'') = py ''old''"
  by (simp add: posix_stem_def posix_suffix_def posix_name_def py_def)

lemma delete_stocked:
  "fst (delete_file chopping_env
         \<lparr>upload_dir = [(py ''old.txt'', a), (py ''id1.txt'', b)], index = idx, calls = cs\<rparr> (py ''id1'')) =
     Inr (True, py ''File deleted successfully'')"
  by (simp add: delete_file_def chopping_env_sel stem_old stem_id1 delete_by_file_id_def
      index_delete_def Let_def)

section \<open>Properties of the chunker\<close>

text \<open>
  C1, as the code has it. Every chunk that \<open>chunk_text\<close> returns has a trimmed length
  greater than 50, that is of at least 51 characters: the chunks returned are exactly
  the pieces of the splitter whose trimmed length exceeds 50, in the splitter's order.
\<close>

theorem chunk_text_min_length:
  assumes "chunk_text sp text chunk_size chunk_overlap = Inr chunks"
  shows "(\<forall>chunk \<in> set chunks. 50 < length (strip chunk)) \<and>
         (\<forall>pieces. \<not> blank text \<and> sp chunk_size chunk_overlap text = Inr pieces \<longrightarrow>
            chunks = filter (\<lambda>chunk. 50 < length (strip chunk)) pieces)"
  using assms by (auto simp: chunk_text_def split: if_splits sum.splits)

theorem chunk_text_min_length_witness:
  "chunk_text one_piece (replicate 51 97) 1000 200 = Inr [replicate 51 97] \<and>
   50 < length (strip (replicate 51 97)) \<and>
   \<not> blank (replicate 51 97) \<and>
   [replicate 51 97] = filter (\<lambda>chunk. 50 < length (strip chunk)) [replicate 51 97]"
proof -
  have e: "chunk_text one_piece (replicate 51 97) 1000 200 = Inr [replicate 51 97]"
    by (simp add: chunk_text_def one_piece_def blank_def strip_replicate not_isspace_a)
  have b: "\<not> blank (replicate 51 97)"
    by (simp add: blank_def strip_replicate not_isspace_a)
  have p: "one_piece 1000 200 (replicate 51 97) = Inr [replicate 51 97]"
    by (simp add: one_piece_def)
  from chunk_text_min_length [OF e] have
    "\<forall>chunk \<in> set [replicate 51 97]. 50 < length (strip chunk)"
    and "[replicate 51 97] = filter (\<lambda>chunk. 50 < length (strip chunk)) [replicate 51 97]"
    using b p by blast+
  with e b show ?thesis by simp
qed

text \<open>
  C1, as the claim states it, fails: a chunk whose trimmed length is exactly 50 is not
  kept. The text of fifty letters \<open>a\<close> is one piece of trimmed length 50, and
  \<open>chunk_text\<close> returns no chunk for it.
\<close>

theorem chunk_text_fifty_dropped:
  "length (strip (replicate 50 97)) = 50 \<and>
   one_piece 1000 200 (replicate 50 97) = Inr [replicate 50 97] \<and>
   chunk_text one_piece (replicate 50 97) 1000 200 = Inr []"
  by (simp add: chunk_text_def one_piece_def blank_def strip_replicate not_isspace_a)

text \<open>
  C9. For the empty string and for every string of white space only, \<open>chunk_text\<close>
  returns the empty sequence and raises nothing, for every chunk size and overlap and
  whatever the splitter would do (it is not called).
\<close>

theorem chunk_text_blank:
  assumes "text = [] \<or> list_all isspace text"
  shows "chunk_text sp text chunk_size chunk_overlap = Inr []"
  using assms by (auto simp: chunk_text_def blank_def strip_all_space)

theorem chunk_text_blank_witness:
  "chunk_text (\<lambda>chunk_size chunk_overlap text. Inl (ValueError [])) (py ''  \<newline> '') 1000 200 = Inr [] \<and>
   chunk_text (\<lambda>chunk_size chunk_overlap text. Inl (ValueError [])) [] (- 1) 5 = Inr []"
  using chunk_text_blank [of "py ''  \<newline> ''" "\<lambda>chunk_size chunk_overlap text. Inl (ValueError [])" 1000 200]
    chunk_text_blank [of "[]" "\<lambda>chunk_size chunk_overlap text. Inl (ValueError [])" "- 1" 5]
  by (simp add: py_def isspace_def)

section \<open>Properties of the upload endpoint\<close>

text \<open>
  The size test compares the exact quotient with 15, so an upload is too large exactly
  when it has more than \<open>15 * 1024 * 1024\<close> bytes. None of the steps of the \<open>try\<close>
  block touches the upload directory.
\<close>

lemma oversize: "15 * 1024 * 1024 < n \<longleftrightarrow> rat_of_nat n / (1024 * 1024) > MAX_FILE_SIZE_MB"
proof -
  have "rat_of_nat n / (1024 * 1024) > 15 \<longleftrightarrow> rat_of_nat n > 15 * (1024 * 1024)"
    by (simp add: pos_less_divide_eq)
  also have "\<dots> \<longleftrightarrow> rat_of_nat n > rat_of_nat (15 * 1024 * 1024)" by simp
  also have "\<dots> \<longleftrightarrow> 15 * 1024 * 1024 < n" by (simp only: of_nat_less_iff)
  finally show ?thesis by (simp add: MAX_FILE_SIZE_MB_def)
qed

lemma open_file_dir: "upload_dir (snd (open_file w p)) = upload_dir w"
  by (simp add: open_file_def)

lemma process_document_dir: "upload_dir (snd (process_document env w p)) = upload_dir w"
  by (simp add: process_document_def Let_def extract_text_from_pdf_def extract_text_from_docx_def
      extract_text_from_txt_def open_file_def split: sum.splits option.splits)

lemma generate_embeddings_dir: "upload_dir (snd (generate_embeddings env w texts)) = upload_dir w"
  by (simp add: generate_embeddings_def)

lemma index_upsert_dir: "upload_dir (snd (index_upsert env w batch)) = upload_dir w"
  by (simp add: index_upsert_def Let_def split: option.splits)

lemma upsert_batches_dir: "upload_dir (snd (upsert_batches env w vectors i n)) = upload_dir w"
proof (induction env w vectors i n rule: upsert_batches.induct)
  case (1 env w vectors i n)
  show ?case
  proof (cases "i < length vectors")
    case False
    then show ?thesis by (simp add: upsert_batches.simps)
  next
    case True
    obtain r w' where step: "index_upsert env w (take 100 (drop i vectors)) = (r, w')"
      by (cases "index_upsert env w (take 100 (drop i vectors))")
    have dir: "upload_dir w' = upload_dir w"
      using index_upsert_dir [of env w "take 100 (drop i vectors)"] step by simp
    show ?thesis
    proof (cases r)
      case (Inl e)
      with True step dir show ?thesis by (simp add: upsert_batches.simps [of env w])
    next
      case (Inr u)
      with True step dir "1.IH" [OF True refl step [symmetric] Inr] show ?thesis
        by (simp add: upsert_batches.simps [of env w])
    qed
  qed
qed

lemma upsert_chunks_dir:
  "upload_dir (snd (upsert_chunks env w fid fname chunks embeddings extra)) = upload_dir w"
  by (simp add: upsert_chunks_def upsert_batches_dir)

lemma upload_file_try_dir:
  "upload_dir (snd (upload_file_try env w file_path file_id name data mb now now')) = upload_dir w"
proof -
  obtain r1 w1 where p: "process_document env w file_path = (r1, w1)"
    by (cases "process_document env w file_path")
  have d1: "upload_dir w1 = upload_dir w" using process_document_dir [of env w file_path] p by simp
  show ?thesis
  proof (cases r1)
    case (Inl e)
    with p d1 show ?thesis by (simp add: upload_file_try_def)
  next
    case ex: (Inr extracted_text)
    show ?thesis
    proof (cases "chunk_text (split_text env) extracted_text CHUNK_SIZE CHUNK_OVERLAP")
      case (Inl e)
      with p d1 ex show ?thesis by (simp add: upload_file_try_def)
    next
      case chunks: (Inr chunks)
      obtain r2 w2 where g: "generate_embeddings env w1 chunks = (r2, w2)"
        by (cases "generate_embeddings env w1 chunks")
      have d2: "upload_dir w2 = upload_dir w"
        using generate_embeddings_dir [of env w1 chunks] g d1 by simp
      show ?thesis
      proof (cases r2)
        case (Inl e)
        with p d1 ex chunks g d2 show ?thesis by (simp add: upload_file_try_def)
      next
        case embs: (Inr embeddings)
        obtain r3 w3 where u: "upsert_chunks env w2 file_id name chunks embeddings
            (Some [(py ''upload_date'', VStr now),
                   (py ''file_size_mb'', VFloat (round_float env mb 2))]) = (r3, w3)"
          by (cases "upsert_chunks env w2 file_id name chunks embeddings
            (Some [(py ''upload_date'', VStr now),
                   (py ''file_size_mb'', VFloat (round_float env mb 2))])")
        have d3: "upload_dir w3 = upload_dir w"
          using upsert_chunks_dir [of env w2 file_id name chunks embeddings] u d2 by (metis snd_conv)
        show ?thesis using p d1 ex chunks g d2 embs u d3
          by (simp add: upload_file_try_def split: sum.splits)
      qed
    qed
  qed
qed

text \<open>
  C5. An upload whose extension is not allowed is rejected with a 400, and an upload of
  more than \<open>15 * 1024 * 1024\<close> bytes is rejected, with a 413 when its name passes the
  validation (and with the validation's error otherwise, which comes first). In both
  cases the state is the one before the request: nothing is written to the upload
  directory, the index is unchanged, and no call was made, neither for extraction nor
  to the embedding model nor to the index.
\<close>

theorem upload_rejected_before_persisting:
  "(filename upl = Some name \<and> str_lower env (path_suffix env name) \<notin> set ALLOWED_EXTENSIONS \<longrightarrow>
      (\<exists>detail. upload_file env w upl file_id now now' = (Inl (HTTPException 400 detail), w))) \<and>
   (15 * 1024 * 1024 < length (file_bytes upl) \<longrightarrow>
      snd (upload_file env w upl file_id now now') = w \<and>
      (validate_file env upl = Inr () \<longrightarrow>
         fst (upload_file env w upl file_id now now') =
           Inl (HTTPException 413 (py ''File too large. Max Size: 15MB''))) \<and>
      (\<forall>e. validate_file env upl = Inl e \<longrightarrow> fst (upload_file env w upl file_id now now') = Inl e))"
proof (intro conjI impI)
  assume "filename upl = Some name \<and> str_lower env (path_suffix env name) \<notin> set ALLOWED_EXTENSIONS"
  then show "\<exists>detail. upload_file env w upl file_id now now' = (Inl (HTTPException 400 detail), w)"
    by (simp add: upload_file_def validate_file_def)
next
  assume big: "15 * 1024 * 1024 < length (file_bytes upl)"
  then have gt: "rat_of_nat (length (file_bytes upl)) / (1024 * 1024) > MAX_FILE_SIZE_MB"
    by (simp only: oversize)
  show "snd (upload_file env w upl file_id now now') = w"
    using gt by (simp add: upload_file_def Let_def split: sum.splits option.splits)
  show "fst (upload_file env w upl file_id now now') =
           Inl (HTTPException 413 (py ''File too large. Max Size: 15MB''))"
    if "validate_file env upl = Inr ()"
    using gt that by (auto simp: upload_file_def validate_file_def Let_def split: sum.splits option.splits)
  show "\<forall>e. validate_file env upl = Inl e \<longrightarrow> fst (upload_file env w upl file_id now now') = Inl e"
    by (simp add: upload_file_def)
qed

theorem upload_rejected_before_persisting_witness:
  "(\<exists>detail. upload_file local_env empty_world \<lparr>filename = Some (py ''tool.exe''), file_bytes = [77, 90]\<rparr>
      (py ''id1'') [] [] = (Inl (HTTPException 400 detail), empty_world)) \<and>
   upload_file local_env empty_world \<lparr>filename = Some (py ''notes.txt''), file_bytes = replicate 15728641 32\<rparr>
      (py ''id1'') [] [] = (Inl (HTTPException 413 (py ''File too large. Max Size: 15MB'')), empty_world)"
proof -
  let ?exe = "\<lparr>filename = Some (py ''tool.exe''), file_bytes = [77, 90]\<rparr>"
  let ?big = "\<lparr>filename = Some (py ''notes.txt''), file_bytes = replicate 15728641 32\<rparr>"
  have bad: "filename ?exe = Some (py ''tool.exe'') \<and>
     str_lower local_env (path_suffix local_env (py ''tool.exe'')) \<notin> set ALLOWED_EXTENSIONS"
    by (simp add: local_env_sel suffix_exe lower_exe ALLOWED_EXTENSIONS_def)
  have big: "15 * 1024 * 1024 < length (file_bytes ?big)" by simp
  have a: "\<exists>detail. upload_file local_env empty_world ?exe (py ''id1'') [] [] = (Inl (HTTPException 400 detail), empty_world)"
    using upload_rejected_before_persisting [where upl = ?exe and name = "py ''tool.exe''" and env = local_env] bad by blast
  have b: "snd (upload_file local_env empty_world ?big (py ''id1'') [] []) = empty_world \<and>
           fst (upload_file local_env empty_world ?big (py ''id1'') [] []) = Inl (HTTPException 413 (py ''File too large. Max Size: 15MB''))"
    using upload_rejected_before_persisting [where upl = ?big and env = local_env and w = empty_world and file_id = "py ''id1''" and now = "[]" and now' = "[]"]
      big validate_notes [of "replicate 15728641 32"] by blast
  from a b show ?thesis by (metis prod.collapse)
qed

text \<open>
  C4. Once the file is persisted (the name is valid and the size is within the
  ceiling), the request ends in one of two ways. Either it succeeds and the file is in
  the upload directory; or some step of the processing raised (the extraction, the
  empty-text check, the chunking, the no-chunk check, the embedding or the upsert) and
  then the error that surfaces is a 500, the persisted file is gone from the upload
  directory, and every other file of the directory is as it was.
\<close>

theorem upload_failure_removes_file:
  assumes "validate_file env upl = Inr ()" and "filename upl = Some name"
    and "length (file_bytes upl) \<le> 15 * 1024 * 1024"
  shows "case upload_file env w upl file_id now now' of
           (Inr response, w') \<Rightarrow>
              map_of (upload_dir w') (file_id @ path_suffix env name) = Some (file_bytes upl)
         | (Inl e, w') \<Rightarrow>
              (\<exists>detail. e = HTTPException 500 detail) \<and>
              map_of (upload_dir w') (file_id @ path_suffix env name) = None \<and>
              (\<forall>other. other \<noteq> file_id @ path_suffix env name \<longrightarrow>
                 map_of (upload_dir w') other = map_of (upload_dir w) other)"
proof -
  let ?u = "file_id @ path_suffix env name"
  let ?saved = "w\<lparr>upload_dir := AList.update ?u (file_bytes upl) (upload_dir w)\<rparr>"
  let ?mb = "rat_of_nat (length (file_bytes upl)) / (1024 * 1024)"
  have small: "\<not> ?mb > MAX_FILE_SIZE_MB"
    using assms(3) oversize [of "length (file_bytes upl)"] by simp
  obtain r w1 where t: "upload_file_try env ?saved ?u file_id name (file_bytes upl) ?mb now now' = (r, w1)"
    by (cases "upload_file_try env ?saved ?u file_id name (file_bytes upl) ?mb now now'")
  have d: "upload_dir w1 = AList.update ?u (file_bytes upl) (upload_dir w)"
    using upload_file_try_dir [of env ?saved ?u file_id name "file_bytes upl" ?mb now now'] t by simp
  show ?thesis
  proof (cases r)
    case (Inl e)
    with assms(1,2) small t d show ?thesis
      by (simp add: upload_file_def Let_def update_conv' delete_conv')
  next
    case (Inr response)
    with assms(1,2) small t d show ?thesis
      by (simp add: upload_file_def Let_def update_conv')
  qed
qed

theorem upload_failure_removes_file_witness:
  "fst (upload_file local_env empty_world \<lparr>filename = Some (py ''notes.txt''), file_bytes = [32, 32, 32]\<rparr>
      (py ''id1'') [] []) =
     Inl (HTTPException 500 (py ''Failed to process document: '' @ py ''No text could be extracted from the document'')) \<and>
   map_of (upload_dir (snd (upload_file local_env empty_world
       \<lparr>filename = Some (py ''notes.txt''), file_bytes = [32, 32, 32]\<rparr> (py ''id1'') [] []))) (py ''id1.txt'') = None \<and>
   fst (upload_file flaky_env empty_world \<lparr>filename = Some (py ''book.txt''), file_bytes = replicate 100060 97\<rparr>
      (py ''id2'') [] []) =
     Inl (HTTPException 500 (py ''Failed to process document: '' @ py ''upsert failed'')) \<and>
   map_of (upload_dir (snd (upload_file flaky_env empty_world
       \<lparr>filename = Some (py ''book.txt''), file_bytes = replicate 100060 97\<rparr> (py ''id2'') [] []))) (py ''id2.txt'') = None"
proof -
  let ?f = "\<lparr>filename = Some (py ''notes.txt''), file_bytes = [32, 32, 32]\<rparr>"
  let ?g = "\<lparr>filename = Some (py ''book.txt''), file_bytes = replicate 100060 97\<rparr>"
  have u: "py ''id1'' @ path_suffix local_env (py ''notes.txt'') = py ''id1.txt''"
    by (simp add: local_env_sel suffix_txt) (simp add: py_def)
  have u2: "py ''id2'' @ path_suffix flaky_env (py ''book.txt'') = py ''id2.txt''"
    by (simp add: flaky_env_sel suffix_book) (simp add: py_def)
  have "length (file_bytes ?f) \<le> 15 * 1024 * 1024" by simp
  from upload_failure_removes_file [where env = local_env and upl = ?f and name = "py ''notes.txt''" and w = empty_world
      and file_id = "py ''id1''" and now = "[]" and now' = "[]", OF validate_notes _ this]
  have a: "fst (upload_file local_env empty_world ?f (py ''id1'') [] []) =
     Inl (HTTPException 500 (py ''Failed to process document: '' @ py ''No text could be extracted from the document'')) \<and>
     map_of (upload_dir (snd (upload_file local_env empty_world ?f (py ''id1'') [] []))) (py ''id1.txt'') = None"
    by (simp add: run_blank u)
  from run_book [of "[]" "[]"] obtain vs cs where
    rb: "upload_file flaky_env empty_world ?g (py ''id2'') [] [] =
       (Inl (HTTPException 500 (py ''Failed to process document: '' @ py ''upsert failed'')),
        \<lparr>upload_dir = [], index = vs, calls = cs\<rparr>)"
    by blast
  have "length (file_bytes ?g) \<le> 15 * 1024 * 1024" by simp
  from upload_failure_removes_file [where env = flaky_env and upl = ?g and name = "py ''book.txt''" and w = empty_world
      and file_id = "py ''id2''" and now = "[]" and now' = "[]", OF validate_book _ this]
  have b: "fst (upload_file flaky_env empty_world ?g (py ''id2'') [] []) =
     Inl (HTTPException 500 (py ''Failed to process document: '' @ py ''upsert failed'')) \<and>
     map_of (upload_dir (snd (upload_file flaky_env empty_world ?g (py ''id2'') [] []))) (py ''id2.txt'') = None"
    by (simp add: rb u2)
  from a b show ?thesis by simp
qed

section \<open>Properties of the chat endpoint\<close>

text \<open>
  C6. When the message is not blank, the embedding model answers and the similarity
  search returns no match, \<open>chat\<close> returns, as a normal response, the fixed reply with
  an empty source list and \<open>num_sources = 0\<close>. The only calls of the request are the
  embedding and the query: the language model is not called.
\<close>

theorem chat_no_matches:
  assumes "\<not> blank (message request)"
    and "encode env [message request] = Inr (q # rest)"
    and "index_query env (index w) q (top_k request) (filter_dict_of request) = Inr []"
  shows "chat env w request =
     (Inr \<lparr>reply = no_information, sources = [], num_sources = 0\<rparr>,
      w\<lparr>calls := calls w @ [Encode [message request],
                              Query q (top_k request) (filter_dict_of request)]\<rparr>)"
  using assms by (simp add: chat_def generate_single_embedding_def search_def)

theorem chat_no_matches_witness:
  "chat local_env empty_world (make_ChatRequest (py ''hello'') None None) =
     (Inr \<lparr>reply = no_information, sources = [], num_sources = 0\<rparr>,
      empty_world\<lparr>calls := [Encode [py ''hello''], Query [5] 5 None]\<rparr>)"
proof -
  let ?r = "make_ChatRequest (py ''hello'') None None"
  have a: "\<not> blank (message ?r)"
    by (simp add: make_ChatRequest_def blank_def strip_def isspace_def py_def)
  have b: "encode local_env [message ?r] = Inr ([5] # [])"
    by (simp add: make_ChatRequest_def local_env_sel py_def)
  have c: "index_query local_env (index empty_world) [5] (top_k ?r) (filter_dict_of ?r) = Inr []"
    by (simp add: make_ChatRequest_def local_env_sel empty_world_def first_entries_def
        filter_dict_of_def)
  show ?thesis using chat_no_matches [OF a b c]
    by (simp add: make_ChatRequest_def empty_world_def filter_dict_of_def)
qed

text \<open>
  C3, as the code has it. \<open>top_k\<close> is 5 when the caller omits it and is the caller's
  value otherwise. The endpoint does not test its sign: for every request with a
  message that is not blank, once the query is embedded the similarity search is called
  with exactly the request's \<open>top_k\<close>, whatever integer that is.
\<close>

theorem chat_top_k_passed_on:
  "top_k (make_ChatRequest msg ids None) = 5 \<and>
   top_k (make_ChatRequest msg ids (Some k)) = k \<and>
   (\<not> blank (message request) \<and> encode env [message request] = Inr (q # rest) \<longrightarrow>
      (\<exists>later. calls (snd (chat env w request)) =
         calls w @ [Encode [message request],
                    Query q (top_k request) (filter_dict_of request)] @ later))"
  by (auto simp: make_ChatRequest_def chat_def generate_single_embedding_def search_def
        generate_response_def Let_def split: sum.splits prod.splits)

theorem chat_top_k_passed_on_witness:
  "top_k (make_ChatRequest (py ''hi'') None None) = 5 \<and>
   top_k (make_ChatRequest (py ''hi'') None (Some (- 3))) = - 3 \<and>
   (\<exists>later. calls (snd (chat local_env empty_world (make_ChatRequest (py ''hi'') None (Some (- 3))))) =
       [Encode [py ''hi''], Query [2] (- 3) None] @ later)"
proof -
  let ?r = "make_ChatRequest (py ''hi'') None (Some (- 3))"
  have a: "\<not> blank (message ?r) \<and> encode local_env [message ?r] = Inr ([2] # [])"
    by (simp add: make_ChatRequest_def blank_def strip_def isspace_def py_def local_env_sel)
  from chat_top_k_passed_on [of "py ''hi''" None "- 3" ?r local_env "[2]" "[]" empty_world] a
  show ?thesis by (simp add: make_ChatRequest_def empty_world_def filter_dict_of_def)
qed

text \<open>
  C3, as the claim states it, fails: a request with \<open>top_k = 0\<close> is not rejected by the
  endpoint. The query goes to the index with \<open>top_k = 0\<close>, and what the caller gets is
  whatever the index does with it (here the index refuses, which is not a client
  error of the endpoint).
\<close>

theorem chat_top_k_zero_reaches_search:
  "chat local_env empty_world (make_ChatRequest (py ''hi'') None (Some 0)) =
   (Inl (Exception (py ''top_k must be a positive integer'')),
    empty_world\<lparr>calls := [Encode [py ''hi''], Query [2] 0 None]\<rparr>)"
  by (simp add: chat_def make_ChatRequest_def blank_def strip_def isspace_def py_def
      generate_single_embedding_def local_env_sel search_def empty_world_def first_entries_def
      filter_dict_of_def)

text \<open>
  C2. When the search returns at least one match and the loop over the matches
  raises nothing, the language model is called once, and the context in its prompt is
  the concatenation, in result order and separated by two newlines, of the \<open>chunk_text\<close>
  each match has stored: the complete stored value, where the source built for the same
  match carries only its first 200 characters followed by \<open>...\<close>.
\<close>

theorem chat_context_is_stored_texts:
  assumes "\<not> blank (message request)"
    and "encode env [message request] = Inr (q # rest)"
    and "index_query env (index w) q (top_k request) (filter_dict_of request) = Inr ms"
    and "ms \<noteq> []"
    and "chat_matches env ms [] [] = Inr (ctx, srcs)"
  shows "ctx = map stored_chunk_text ms \<and>
     calls (snd (chat env w request)) =
       calls w @ [Encode [message request], Query q (top_k request) (filter_dict_of request),
                  GenerateContent (prompt_of (message request)
                     (join (py ''\<newline>\<newline>'') (map stored_chunk_text ms)))] \<and>
     map src_chunk_text srcs = map (\<lambda>m. take 200 (stored_chunk_text m) @ py ''...'') ms"
proof -
  from chat_matches_acc [OF assms(5)]
  have c: "ctx = map stored_chunk_text ms"
    and p: "map src_chunk_text srcs = map (\<lambda>m. take 200 (stored_chunk_text m) @ py ''...'') ms"
    by simp_all
  from assms c have "calls (snd (chat env w request)) =
       calls w @ [Encode [message request], Query q (top_k request) (filter_dict_of request),
                  GenerateContent (prompt_of (message request)
                     (join (py ''\<newline>\<newline>'') (map stored_chunk_text ms)))]"
    by (simp add: chat_def generate_single_embedding_def search_def generate_response_def Let_def
        split: sum.splits)
  with c p show ?thesis by simp
qed

theorem chat_context_is_stored_texts_witness:
  "calls (snd (chat local_env
      \<lparr>upload_dir = [],
         index = prepare_vectors (py ''doc'') (py ''a.txt'') [py ''first chunk'', py ''second chunk''] [[1], [2]] None,
         calls = []\<rparr>
      (make_ChatRequest (py ''hi'') None None))) =
   [Encode [py ''hi''], Query [2] 5 None,
    GenerateContent (prompt_of (py ''hi'') (py ''first chunk\<newline>\<newline>second chunk''))]"
proof -
  let ?vs = "prepare_vectors (py ''doc'') (py ''a.txt'') [py ''first chunk'', py ''second chunk''] [[1], [2]] None"
  let ?w = "\<lparr>upload_dir = [], index = ?vs, calls = []\<rparr>"
  let ?r = "make_ChatRequest (py ''hi'') None None"
  let ?ms = "map as_match ?vs"
  have a: "\<not> blank (message ?r)"
    by (simp add: make_ChatRequest_def blank_def strip_def isspace_def py_def)
  have b: "encode local_env [message ?r] = Inr ([2] # [])"
    by (simp add: make_ChatRequest_def py_def local_env_sel)
  have c: "index_query local_env (index ?w) [2] (top_k ?r) (filter_dict_of ?r) = Inr ?ms"
    by (simp add: make_ChatRequest_def local_env_sel first_entries_def filter_dict_of_def two_vectors)
  have d: "?ms \<noteq> []" by (simp add: two_vectors)
  have st: "map stored_chunk_text ?ms = [py ''first chunk'', py ''second chunk'']"
    by (simp add: two_vectors as_match_def stored_chunk_text_def dict_get_def)
  have e: "chat_matches local_env ?ms [] [] =
     Inr ([py ''first chunk'', py ''second chunk''],
          [\<lparr>src_filename = py ''a.txt'', src_chunk_text = py ''first chunk'' @ py ''...'',
             src_chunk_index = 0, similarity_score = 1\<rparr>,
           \<lparr>src_filename = py ''a.txt'', src_chunk_text = py ''second chunk'' @ py ''...'',
             src_chunk_index = 1, similarity_score = 1\<rparr>])"
    by (simp add: two_vectors as_match_def dict_get_def local_env_sel str_field_def int_field_def)
       (simp add: py_def)
  have j: "join (py ''\<newline>\<newline>'') [py ''first chunk'', py ''second chunk''] =
           py ''first chunk\<newline>\<newline>second chunk''"
    by (simp add: py_def)
  have "calls (snd (chat local_env ?w ?r)) =
       calls ?w @ [Encode [message ?r], Query [2] (top_k ?r) (filter_dict_of ?r),
                  GenerateContent (prompt_of (message ?r)
                     (join (py ''\<newline>\<newline>'') (map stored_chunk_text ?ms)))]"
    using chat_context_is_stored_texts [OF a b c d e] by (rule conjunct1 [OF conjunct2])
  then show ?thesis
    unfolding st j by (simp add: make_ChatRequest_def filter_dict_of_def)
qed

section \<open>Properties of the stored metadata\<close>

text \<open>
  C10. When \<open>upsert_chunks\<close> succeeds (and the additional metadata does not itself set
  \<open>chunk_text\<close> or \<open>text_length\<close>), the index holds the entries it prepared, one per
  chunk, and in the entry of chunk \<open>i\<close> the metadata field \<open>chunk_text\<close> is the first 1000
  characters of the chunk while \<open>text_length\<close> is the chunk's full length. So whoever
  reads \<open>chunk_text\<close> from a match with that metadata sees at most 1000 characters: the
  loop of the chat endpoint puts exactly \<open>chunk[:1000]\<close> into the context, and the first
  200 characters of the chunk followed by \<open>...\<close> into the source.
\<close>

theorem upsert_chunks_stores_prefix:
  assumes "upsert_chunks env w fid fname chunks embs extra = (Inr total_upserted, w')"
    and "extra_keeps (py ''chunk_text'') extra" and "extra_keeps (py ''text_length'') extra"
  shows "index w' = foldl upsert_one (index w) (prepare_vectors fid fname chunks embs extra) \<and>
     length (prepare_vectors fid fname chunks embs extra) = length chunks \<and>
     (\<forall>i < length chunks.
        dict_get (metadata (prepare_vectors fid fname chunks embs extra ! i)) (py ''chunk_text'') d =
          VStr (take 1000 (chunks ! i)) \<and>
        dict_get (metadata (prepare_vectors fid fname chunks embs extra ! i)) (py ''text_length'') d =
          VInt (int (length (chunks ! i))) \<and>
        (\<forall>m env' cc ss ctx srcs.
           match_metadata m = metadata (prepare_vectors fid fname chunks embs extra ! i) \<and>
           chat_matches env' [m] cc ss = Inr (ctx, srcs) \<longrightarrow>
             ctx = cc @ [take 1000 (chunks ! i)] \<and> length (last ctx) \<le> 1000 \<and>
             map src_chunk_text srcs = map src_chunk_text ss @ [take 200 (chunks ! i) @ py ''...'']))"
proof -
  let ?vs = "prepare_vectors fid fname chunks embs extra"
  from upsert_chunks_index [OF assms(1)]
  have len: "length chunks = length embs" and idx: "index w' = foldl upsert_one (index w) ?vs" by simp_all
  have fields: "dict_get (metadata (?vs ! i)) (py ''chunk_text'') d' = VStr (take 1000 (chunks ! i)) \<and>
        dict_get (metadata (?vs ! i)) (py ''text_length'') d' = VInt (int (length (chunks ! i)))"
    if "i < length chunks" for i d'
    using that len assms(2,3)
    by (simp add: prepare_vectors_nth dict_get_def chunk_vector_field)
  have use: "ctx = cc @ [take 1000 (chunks ! i)] \<and> length (last ctx) \<le> 1000 \<and>
             map src_chunk_text srcs = map src_chunk_text ss @ [take 200 (chunks ! i) @ py ''...'']"
    if i: "i < length chunks" and m: "match_metadata m = metadata (?vs ! i)"
      and run: "chat_matches env' [m] cc ss = Inr (ctx, srcs)" for i m env' cc ss ctx srcs
  proof -
    from fields [OF i, of "VStr []"] m have "stored_chunk_text m = take 1000 (chunks ! i)"
      by (simp add: stored_chunk_text_def)
    with chat_matches_acc [OF run] show ?thesis by (simp add: min_def)
  qed
  have n: "length ?vs = length chunks" using len by (simp add: prepare_vectors_length)
  show ?thesis
  proof (intro conjI allI impI)
    show "index w' = foldl upsert_one (index w) ?vs" by (rule idx)
    show "length ?vs = length chunks" by (rule n)
  next
    fix i assume "i < length chunks"
    then show "dict_get (metadata (?vs ! i)) (py ''chunk_text'') d = VStr (take 1000 (chunks ! i))"
      and "dict_get (metadata (?vs ! i)) (py ''text_length'') d = VInt (int (length (chunks ! i)))"
      using fields by blast+
  next
    fix i m env' cc ss ctx srcs
    assume i: "i < length chunks"
      and h: "match_metadata m = metadata (?vs ! i) \<and> chat_matches env' [m] cc ss = Inr (ctx, srcs)"
    from use [OF i, of m env' cc ss ctx srcs] h
    show "ctx = cc @ [take 1000 (chunks ! i)]" and "length (last ctx) \<le> 1000"
      and "map src_chunk_text srcs = map src_chunk_text ss @ [take 200 (chunks ! i) @ py ''...'']"
      by blast+
  qed
qed

theorem upsert_chunks_stores_prefix_witness:
  "fst (upsert_chunks local_env empty_world (py ''doc'') (py ''a.txt'') [replicate 1001 97] [[7]] None) = Inr 1 \<and>
   dict_get (metadata (prepare_vectors (py ''doc'') (py ''a.txt'') [replicate 1001 97] [[7]] None ! 0))
      (py ''chunk_text'') (VStr []) = VStr (replicate 1000 97) \<and>
   dict_get (metadata (prepare_vectors (py ''doc'') (py ''a.txt'') [replicate 1001 97] [[7]] None ! 0))
      (py ''text_length'') (VInt 0) = VInt 1001"
proof -
  have k: "extra_keeps (py ''chunk_text'') None" "extra_keeps (py ''text_length'') None"
    by (simp_all add: extra_keeps_def)
  from upsert_chunks_stores_prefix [OF run_upsert_long k, of "VStr []"]
    upsert_chunks_stores_prefix [OF run_upsert_long k, of "VInt 0"]
  show ?thesis by (simp add: run_upsert_long)
qed

section \<open>Index entries of a document\<close>

text \<open>
  C7, as the code has it. When an upload succeeds, the number of vectors stored is the
  number of chunks; and when no entry of the index carried the document's id or one
  of its entry ids before (the id is a fresh \<open>uuid4\<close>), the entries of the document in
  the index afterwards are one per chunk, in order, entry \<open>i\<close> with the id
  \<open>{file_id}_chunk_{i}\<close> and the chunk index \<open>i\<close>, and the other entries are as they were.
  When \<open>delete_by_file_id\<close> answers \<open>True\<close>, that is when the index's delete did not
  raise, no entry of the document is left and the other entries are as they were; the
  same two facts hold for the index after \<open>delete_file\<close> found the document's file
  and the index's delete did not raise.
\<close>

theorem ingest_and_delete_entries:
  "(upload_file env w upl fid now now' = (Inr r, w') \<and>
    (\<forall>v \<in> set (index w). \<not> matches_filter (FileIdEq fid) v \<and>
                          (\<forall>i. vector_id v \<noteq> fid @ py ''_chunk_'' @ str_nat i)) \<longrightarrow>
       vectors_stored r = num_chunks r \<and>
       map vector_id (filter (matches_filter (FileIdEq fid)) (index w')) =
         map (\<lambda>i. fid @ py ''_chunk_'' @ str_nat i) [0..<num_chunks r] \<and>
       map (\<lambda>v. dict_get (metadata v) (py ''chunk_index'') (VInt 0))
           (filter (matches_filter (FileIdEq fid)) (index w')) =
         map (\<lambda>i. VInt (int i)) [0..<num_chunks r] \<and>
       filter (\<lambda>v. \<not> matches_filter (FileIdEq fid) v) (index w') = index w) \<and>
   (delete_by_file_id env u fid = (True, u') \<longrightarrow>
       filter (matches_filter (FileIdEq fid)) (index u') = [] \<and>
       filter (\<lambda>v. \<not> matches_filter (FileIdEq fid) v) (index u') =
         filter (\<lambda>v. \<not> matches_filter (FileIdEq fid) v) (index u)) \<and>
   (fst (delete_file env u fid) = Inr ok \<and>
    index_delete_raises env (index u) (FileIdEq fid) = None \<longrightarrow>
       filter (matches_filter (FileIdEq fid)) (index (snd (delete_file env u fid))) = [] \<and>
       filter (\<lambda>v. \<not> matches_filter (FileIdEq fid) v) (index (snd (delete_file env u fid))) =
         filter (\<lambda>v. \<not> matches_filter (FileIdEq fid) v) (index u))"
proof (intro conjI impI)
  assume h: "upload_file env w upl fid now now' = (Inr r, w') \<and>
    (\<forall>v \<in> set (index w). \<not> matches_filter (FileIdEq fid) v \<and>
                          (\<forall>i. vector_id v \<noteq> fid @ py ''_chunk_'' @ str_nat i))"
  then have up: "upload_file env w upl fid now now' = (Inr r, w')"
    and nomatch: "\<forall>v \<in> set (index w). \<not> matches_filter (FileIdEq fid) v"
    and noid: "\<forall>v \<in> set (index w). \<forall>i. vector_id v \<noteq> fid @ py ''_chunk_'' @ str_nat i"
    by blast+
  from upload_file_success [OF up] obtain name mb chunks embs w2 where
    i2: "index w2 = index w"
    and us: "upsert_chunks env w2 fid name chunks embs
             (Some [(py ''upload_date'', VStr now),
                    (py ''file_size_mb'', VFloat (round_float env mb 2))]) = (Inr (vectors_stored r), w')"
    and nc: "num_chunks r = length chunks"
    by blast
  let ?extra = "Some [(py ''upload_date'', VStr now), (py ''file_size_mb'', VFloat (round_float env mb 2))]"
  let ?vs = "prepare_vectors fid name chunks embs ?extra"
  from upsert_chunks_index [OF us]
  have len: "length chunks = length embs" and idx: "index w' = foldl upsert_one (index w) ?vs"
    and tot: "vectors_stored r = length chunks" using i2 by simp_all
  have ids: "map vector_id ?vs = map (\<lambda>i. fid @ py ''_chunk_'' @ str_nat i) [0..<length chunks]"
    using len by (simp add: prepare_vectors_ids)
  have "vector_id ` set ?vs \<inter> vector_id ` set (index w) = {}"
  proof (rule ccontr)
    assume "vector_id ` set ?vs \<inter> vector_id ` set (index w) \<noteq> {}"
    then obtain x where a: "x \<in> vector_id ` set ?vs" and b: "x \<in> vector_id ` set (index w)"
      by blast
    from a have "x \<in> set (map vector_id ?vs)" by simp
    then obtain i where x: "x = fid @ py ''_chunk_'' @ str_nat i" unfolding ids by auto
    from b obtain v where v: "v \<in> set (index w)" and xv: "x = vector_id v" by blast
    from bspec [OF noid v] have "vector_id v \<noteq> fid @ py ''_chunk_'' @ str_nat i" by (rule spec)
    with x xv show False by simp
  qed
  with idx have app: "index w' = index w @ ?vs"
    by (simp add: foldl_upsert_fresh prepare_vectors_distinct)
  have f1: "filter (matches_filter (FileIdEq fid)) (index w') = ?vs"
    and f2: "filter (\<lambda>v. \<not> matches_filter (FileIdEq fid) v) (index w') = index w"
    using filter_prepared [OF upload_extra_keeps(1) nomatch] by (simp_all add: app)
  show "vectors_stored r = num_chunks r" using tot nc by simp
  show "map vector_id (filter (matches_filter (FileIdEq fid)) (index w')) =
         map (\<lambda>i. fid @ py ''_chunk_'' @ str_nat i) [0..<num_chunks r]"
    using ids by (simp add: f1 nc)
  show "map (\<lambda>v. dict_get (metadata v) (py ''chunk_index'') (VInt 0))
           (filter (matches_filter (FileIdEq fid)) (index w')) =
         map (\<lambda>i. VInt (int i)) [0..<num_chunks r]"
    using prepare_vectors_chunk_index [OF upload_extra_keeps(2), of "VInt 0" fid name chunks embs] len
    by (simp add: f1 nc)
  show "filter (\<lambda>v. \<not> matches_filter (FileIdEq fid) v) (index w') = index w" by (rule f2)
next
  assume d: "delete_by_file_id env u fid = (True, u')"
  from delete_by_file_id_index [OF d]
  show "filter (matches_filter (FileIdEq fid)) (index u') = []"
    and "filter (\<lambda>v. \<not> matches_filter (FileIdEq fid) v) (index u') =
         filter (\<lambda>v. \<not> matches_filter (FileIdEq fid) v) (index u)"
    by (simp_all add: filter_empty_conv)
next
  assume "fst (delete_file env u fid) = Inr ok \<and>
    index_delete_raises env (index u) (FileIdEq fid) = None"
  then have "index (snd (delete_file env u fid)) =
           filter (\<lambda>v. \<not> matches_filter (FileIdEq fid) v) (index u)"
    using delete_file_index by blast
  then show "filter (matches_filter (FileIdEq fid)) (index (snd (delete_file env u fid))) = []"
    and "filter (\<lambda>v. \<not> matches_filter (FileIdEq fid) v) (index (snd (delete_file env u fid))) =
         filter (\<lambda>v. \<not> matches_filter (FileIdEq fid) v) (index u)"
    by (simp_all add: filter_empty_conv)
qed

theorem ingest_and_delete_entries_witness:
  "map vector_id (filter (matches_filter (FileIdEq (py ''id1'')))
     (index (snd (upload_file chopping_env stocked_world
        \<lparr>filename = Some (py ''notes.txt''), file_bytes = replicate 1060 97\<rparr> (py ''id1'') [] [])))) =
     [py ''id1_chunk_0'', py ''id1_chunk_1''] \<and>
   map (\<lambda>v. dict_get (metadata v) (py ''chunk_index'') (VInt 0))
     (filter (matches_filter (FileIdEq (py ''id1'')))
       (index (snd (upload_file chopping_env stocked_world
          \<lparr>filename = Some (py ''notes.txt''), file_bytes = replicate 1060 97\<rparr> (py ''id1'') [] [])))) =
     [VInt 0, VInt 1] \<and>
   filter (\<lambda>v. \<not> matches_filter (FileIdEq (py ''id1'')) v)
     (index (snd (upload_file chopping_env stocked_world
        \<lparr>filename = Some (py ''notes.txt''), file_bytes = replicate 1060 97\<rparr> (py ''id1'') [] []))) =
     [old_entry] \<and>
   filter (matches_filter (FileIdEq (py ''id1'')))
     (index (snd (delete_by_file_id chopping_env
        (snd (upload_file chopping_env stocked_world
           \<lparr>filename = Some (py ''notes.txt''), file_bytes = replicate 1060 97\<rparr> (py ''id1'') [] []))
        (py ''id1'')))) = [] \<and>
   filter (\<lambda>v. \<not> matches_filter (FileIdEq (py ''id1'')) v)
     (index (snd (delete_by_file_id chopping_env
        (snd (upload_file chopping_env stocked_world
           \<lparr>filename = Some (py ''notes.txt''), file_bytes = replicate 1060 97\<rparr> (py ''id1'') [] []))
        (py ''id1'')))) = [old_entry] \<and>
   fst (delete_file chopping_env
        (snd (upload_file chopping_env stocked_world
           \<lparr>filename = Some (py ''notes.txt''), file_bytes = replicate 1060 97\<rparr> (py ''id1'') [] []))
        (py ''id1'')) = Inr (True, py ''File deleted successfully'') \<and>
   filter (matches_filter (FileIdEq (py ''id1'')))
     (index (snd (delete_file chopping_env
        (snd (upload_file chopping_env stocked_world
           \<lparr>filename = Some (py ''notes.txt''), file_bytes = replicate 1060 97\<rparr> (py ''id1'') [] []))
        (py ''id1'')))) = [] \<and>
   filter (\<lambda>v. \<not> matches_filter (FileIdEq (py ''id1'')) v)
     (index (snd (delete_file chopping_env
        (snd (upload_file chopping_env stocked_world
           \<lparr>filename = Some (py ''notes.txt''), file_bytes = replicate 1060 97\<rparr> (py ''id1'') [] []))
        (py ''id1'')))) = [old_entry]"
proof -
  let ?up = "upload_file chopping_env stocked_world
        \<lparr>filename = Some (py ''notes.txt''), file_bytes = replicate 1060 97\<rparr> (py ''id1'') [] []"
  from run_stocked [of "[]" "[]"] obtain r cs idx where nc: "num_chunks r = 2"
    and e: "?up = (Inr r, \<lparr>upload_dir = [(py ''old.txt'', [107, 101, 112, 116]),
                                          (py ''id1.txt'', replicate 1060 97)],
                          index = idx, calls = cs\<rparr>)"
    by blast
  let ?w = "\<lparr>upload_dir = [(py ''old.txt'', [107, 101, 112, 116 :: 8 word]), (py ''id1.txt'', replicate 1060 97)],
             index = idx, calls = cs\<rparr>"
  have nomatch: "\<not> matches_filter (FileIdEq (py ''id1'')) old_entry"
    by (simp add: old_entry_def)
  have noid: "vector_id old_entry \<noteq> py ''id1'' @ py ''_chunk_'' @ str_nat i" for i
    by (simp add: old_entry_def py_def)
  have fresh: "\<forall>v \<in> set (index stocked_world). \<not> matches_filter (FileIdEq (py ''id1'')) v \<and>
                          (\<forall>i. vector_id v \<noteq> py ''id1'' @ py ''_chunk_'' @ str_nat i)"
    using nomatch noid by (simp add: stocked_world_def)
  have d: "delete_by_file_id chopping_env ?w (py ''id1'') =
           (True, snd (delete_by_file_id chopping_env ?w (py ''id1'')))"
    by (simp add: delete_by_file_id_def index_delete_def Let_def chopping_env_sel)
  have f: "fst (delete_file chopping_env ?w (py ''id1'')) = Inr (True, py ''File deleted successfully'')"
    by (rule delete_stocked)
  have n: "index_delete_raises chopping_env (index ?w) (FileIdEq (py ''id1'')) = None"
    by (simp add: chopping_env_sel)
  have ids: "map (\<lambda>i. py ''id1'' @ py ''_chunk_'' @ str_nat i) [0..<2] =
             [py ''id1_chunk_0'', py ''id1_chunk_1'']"
    by (simp add: upt_rec str_nat.simps py_def)
  have cis: "map (\<lambda>i. VInt (int i)) [0..<2] = [VInt 0, VInt 1]"
    by (simp add: upt_rec)
  have old: "index stocked_world = [old_entry]" by (simp add: stocked_world_def)
  from ingest_and_delete_entries [of chopping_env stocked_world
      "\<lparr>filename = Some (py ''notes.txt''), file_bytes = replicate 1060 97\<rparr>" "py ''id1''" "[]" "[]" r ?w
      ?w "snd (delete_by_file_id chopping_env ?w (py ''id1''))" "(True, py ''File deleted successfully'')"]
    e fresh d nc f n
  show ?thesis by (simp add: ids cis old)
qed

text \<open>
  C7, as the claim states it, fails twice: the invariant is not preserved by every
  operation, and a delete does not always remove the document's entries. First, a text
  of 100060 characters is cut into 101 chunks; the first batch of 100 entries is
  written, the second batch raises; the upload is reported as failed with a 500, its
  file is removed, and the index keeps 100 entries of the document. Second, when the
  index raises on the delete, \<open>delete_file\<close> still answers success and removes the
  file, and the document's entry stays in the index.
\<close>

theorem failed_upsert_leaves_entries:
  "fst (upload_file flaky_env empty_world
          \<lparr>filename = Some (py ''book.txt''), file_bytes = replicate 100060 97\<rparr> (py ''id2'') [] []) =
     Inl (HTTPException 500 (py ''Failed to process document: '' @ py ''upsert failed'')) \<and>
   upload_dir (snd (upload_file flaky_env empty_world
          \<lparr>filename = Some (py ''book.txt''), file_bytes = replicate 100060 97\<rparr> (py ''id2'') [] [])) = [] \<and>
   length (filter (matches_filter (FileIdEq (py ''id2'')))
     (index (snd (upload_file flaky_env empty_world
          \<lparr>filename = Some (py ''book.txt''), file_bytes = replicate 100060 97\<rparr> (py ''id2'') [] [])))) = 100 \<and>
   fst (delete_file deaf_index_env stocked_world (py ''old'')) =
     Inr (True, py ''File deleted successfully'') \<and>
   upload_dir (snd (delete_file deaf_index_env stocked_world (py ''old''))) = [] \<and>
   filter (matches_filter (FileIdEq (py ''old'')))
     (index (snd (delete_file deaf_index_env stocked_world (py ''old'')))) = [old_entry]"
proof -
  from run_book [of "[]" "[]"] obtain vs cs where
    l: "length vs = 100" and m: "\<forall>v \<in> set vs. matches_filter (FileIdEq (py ''id2'')) v"
    and r: "upload_file flaky_env empty_world
          \<lparr>filename = Some (py ''book.txt''), file_bytes = replicate 100060 97\<rparr> (py ''id2'') [] [] =
       (Inl (HTTPException 500 (py ''Failed to process document: '' @ py ''upsert failed'')),
        \<lparr>upload_dir = [], index = vs, calls = cs\<rparr>)"
    by blast
  from m have "filter (matches_filter (FileIdEq (py ''id2''))) vs = vs" by (simp add: filter_id_conv)
  with l have a: "fst (upload_file flaky_env empty_world
          \<lparr>filename = Some (py ''book.txt''), file_bytes = replicate 100060 97\<rparr> (py ''id2'') [] []) =
     Inl (HTTPException 500 (py ''Failed to process document: '' @ py ''upsert failed'')) \<and>
   upload_dir (snd (upload_file flaky_env empty_world
          \<lparr>filename = Some (py ''book.txt''), file_bytes = replicate 100060 97\<rparr> (py ''id2'') [] [])) = [] \<and>
   length (filter (matches_filter (FileIdEq (py ''id2'')))
     (index (snd (upload_file flaky_env empty_world
          \<lparr>filename = Some (py ''book.txt''), file_bytes = replicate 100060 97\<rparr> (py ''id2'') [] [])))) = 100"
    by (simp add: r)
  have mo: "matches_filter (FileIdEq (py ''old'')) old_entry" by (simp add: old_entry_def)
  have b: "delete_file deaf_index_env stocked_world (py ''old'') =
     (Inr (True, py ''File deleted successfully''),
      \<lparr>upload_dir = [], index = [old_entry], calls = [Delete (FileIdEq (py ''old''))]\<rparr>)"
    by (simp add: delete_file_def deaf_index_env_sel stocked_world_def stem_old delete_by_file_id_def
        index_delete_def Let_def)
  from a mo show ?thesis by (simp add: b)
qed

end
